theory Spec2Isabelle
  imports Complex_Main
begin

section \<open>Sequence notation parser\<close>

text \<open>
  \<^verbatim>\<open>function_sequence_parse\<close> reads whitespace-separated tokens from a
  \<^verbatim>\<open>std::istringstream\<close> and converts the numeric pieces with \<^verbatim>\<open>std::stoi\<close>.
  An exception of \<^verbatim>\<open>std::stoi\<close> leaves the function (no caller catches it), so the
  model returns a sum: \<open>Inl\<close> the exception, \<open>Inr\<close> the vector.
\<close>

datatype stoi_error = invalid_argument | out_of_range

definition isspace :: "char \<Rightarrow> bool" where
  "isspace c = (c = CHR '' '' \<or> c = CHR 0x09 \<or> c = CHR 0x0A \<or> c = CHR 0x0B
                \<or> c = CHR 0x0C \<or> c = CHR 0x0D)"

definition isdigit :: "char \<Rightarrow> bool" where
  "isdigit c = (48 \<le> (of_char c :: nat) \<and> (of_char c :: nat) \<le> 57)"

definition digit_val :: "char \<Rightarrow> nat" where
  "digit_val c = of_char c - 48"

definition digits_val :: "string \<Rightarrow> nat" where
  "digits_val ds = foldl (\<lambda>a c. 10 * a + digit_val c) 0 ds"

text \<open>
  \<^verbatim>\<open>std::stoi(str)\<close> (base 10): leading whitespace is skipped, one optional sign is
  read, then the longest run of decimal digits. No digit: \<^verbatim>\<open>std::invalid_argument\<close>.
  A value outside \<^verbatim>\<open>int\<close>: \<^verbatim>\<open>std::out_of_range\<close>. Whatever follows the digits
  is ignored.
\<close>

definition stoi :: "string \<Rightarrow> stoi_error + int" where
  "stoi str =
     (let s1 = dropWhile isspace str;
          neg = (s1 \<noteq> [] \<and> hd s1 = CHR ''-'');
          s2 = (if s1 \<noteq> [] \<and> (hd s1 = CHR ''-'' \<or> hd s1 = CHR ''+'') then tl s1 else s1);
          ds = takeWhile isdigit s2
      in if ds = [] then Inl invalid_argument
         else let v = (if neg then - int (digits_val ds) else int (digits_val ds))
              in if v < - 2147483648 \<or> 2147483647 < v then Inl out_of_range else Inr v)"

text \<open>
  \<^verbatim>\<open>while (stream >> token)\<close>: each extraction skips whitespace and reads up to the
  next whitespace character or the end of the string; the loop ends when nothing is left.
  \<open>split_ws cur rest\<close> scans the characters with the token read so far in \<open>cur\<close>.
\<close>

fun split_ws :: "string \<Rightarrow> string \<Rightarrow> string list" where
  "split_ws cur [] = (if cur = [] then [] else [cur])"
| "split_ws cur (c # cs) =
     (if isspace c then (if cur = [] then split_ws [] cs else cur # split_ws [] cs)
      else split_ws (cur @ [c]) cs)"

definition stream_tokens :: "string \<Rightarrow> string list" where
  "stream_tokens istring_sequence = split_ws [] istring_sequence"

text \<open>
  One iteration of the loop body, returning the values pushed onto the vector. In the
  repetition branch the count is converted first, then the target; the \<^verbatim>\<open>for\<close> loop
  \<^verbatim>\<open>for (int i = 0; i < stay_grain; ++i)\<close> runs \<open>nat stay_grain\<close> times (not at all for
  a count below one).
\<close>

definition parse_token :: "string \<Rightarrow> stoi_error + int list" where
  "parse_token token =
     (if token = ''x'' then Inr [- 1]
      else if CHR ''*'' \<in> set token then
        (let token_ch = takeWhile (\<lambda>c. c \<noteq> CHR ''*'') token;
             count_str = tl (dropWhile (\<lambda>c. c \<noteq> CHR ''*'') token)
         in case stoi count_str of
              Inl e \<Rightarrow> Inl e
            | Inr stay_grain \<Rightarrow>
                (case (if token_ch = ''x'' then Inr (- 1) else stoi token_ch) of
                   Inl e \<Rightarrow> Inl e
                 | Inr object_ch \<Rightarrow> Inr (replicate (nat stay_grain) object_ch)))
      else case stoi token of Inl e \<Rightarrow> Inl e | Inr object_ch \<Rightarrow> Inr [object_ch])"

fun parse_tokens :: "int list \<Rightarrow> string list \<Rightarrow> stoi_error + int list" where
  "parse_tokens vector_sequence [] = Inr vector_sequence"
| "parse_tokens vector_sequence (token # rest) =
     (case parse_token token of
        Inl e \<Rightarrow> Inl e
      | Inr pushed \<Rightarrow> parse_tokens (vector_sequence @ pushed) rest)"

definition function_sequence_parse :: "string \<Rightarrow> stoi_error + int list" where
  "function_sequence_parse istring_sequence = parse_tokens [] (stream_tokens istring_sequence)"


subsection \<open>The grammar of the specification\<close>




text \<open>
  A valid integer in the specification's sense: the whole text is an optional sign
  followed by decimal digits only.
\<close>

definition spec_valid_integer :: "string \<Rightarrow> bool" where
  "spec_valid_integer s =
     (let body = (if s \<noteq> [] \<and> (hd s = CHR ''-'' \<or> hd s = CHR ''+'') then tl s else s)
      in body \<noteq> [] \<and> list_all isdigit body)"

text \<open>
  What the parser does reject. \<open>leading_int_rejected str\<close>: after optional whitespace and
  one optional sign there is no digit, or the digits that follow denote a value outside
  \<^verbatim>\<open>int\<close>. \<open>token_rejected\<close> applies it to the pieces of a token that the loop body
  hands to \<^verbatim>\<open>std::stoi\<close>.
\<close>

definition leading_int_rejected :: "string \<Rightarrow> bool" where
  "leading_int_rejected str =
     (let s1 = dropWhile isspace str;
          neg = (s1 \<noteq> [] \<and> hd s1 = CHR ''-'');
          s2 = (if s1 \<noteq> [] \<and> (hd s1 = CHR ''-'' \<or> hd s1 = CHR ''+'') then tl s1 else s1);
          ds = takeWhile isdigit s2
      in ds = [] \<or> (if neg then 2147483648 < digits_val ds else 2147483647 < digits_val ds))"

definition token_rejected :: "string \<Rightarrow> bool" where
  "token_rejected t =
     (t \<noteq> ''x'' \<and>
      (if CHR ''*'' \<in> set t then
         leading_int_rejected (tl (dropWhile (\<lambda>c. c \<noteq> CHR ''*'') t)) \<or>
         (takeWhile (\<lambda>c. c \<noteq> CHR ''*'') t \<noteq> ''x'' \<and>
          leading_int_rejected (takeWhile (\<lambda>c. c \<noteq> CHR ''*'') t))
       else leading_int_rejected t))"

subsection \<open>Properties of the parser\<close>

lemmas parse_eval =
  function_sequence_parse_def stream_tokens_def parse_token_def stoi_def isspace_def
  isdigit_def digits_val_def digit_val_def eval_nat_numeral






lemma stoi_isl: "isl (stoi str) = leading_int_rejected str"
  unfolding stoi_def leading_int_rejected_def Let_def by auto

lemma parse_token_isl: "isl (parse_token t) = token_rejected t"
proof (cases "t = ''x''")
  case True
  then show ?thesis by (simp add: parse_token_def token_rejected_def)
next
  case False
  show ?thesis
  proof (cases "CHR ''*'' \<in> set t")
    case True
    define a where "a = takeWhile (\<lambda>c. c \<noteq> CHR ''*'') t"
    define c where "c = tl (dropWhile (\<lambda>c. c \<noteq> CHR ''*'') t)"
    have p: "parse_token t =
          (case stoi c of Inl e \<Rightarrow> Inl e
           | Inr stay_grain \<Rightarrow>
               (case (if a = ''x'' then Inr (- 1) else stoi a) of Inl e \<Rightarrow> Inl e
                | Inr object_ch \<Rightarrow> Inr (replicate (nat stay_grain) object_ch)))"
      unfolding parse_token_def Let_def a_def c_def using True False by simp
    have r: "token_rejected t =
          (leading_int_rejected c \<or> (a \<noteq> ''x'' \<and> leading_int_rejected a))"
      unfolding token_rejected_def a_def c_def using True False by simp
    show ?thesis
      unfolding p r stoi_isl[symmetric]
      by (cases "stoi c"; cases "stoi a"; simp)
  next
    case nostar: False
    have "parse_token t = (case stoi t of Inl e \<Rightarrow> Inl e | Inr object_ch \<Rightarrow> Inr [object_ch])"
      unfolding parse_token_def using False nostar by simp
    moreover have "token_rejected t = leading_int_rejected t"
      unfolding token_rejected_def using False nostar by simp
    ultimately show ?thesis
      unfolding stoi_isl[symmetric] by (cases "stoi t"; simp)
  qed
qed

lemma parse_tokens_isl:
  "isl (parse_tokens acc ts) = (\<exists>t \<in> set ts. token_rejected t)"
proof (induction ts arbitrary: acc)
  case Nil
  then show ?case by simp
next
  case (Cons t ts)
  show ?case
  proof (cases "parse_token t")
    case (Inl e)
    then have "token_rejected t" using parse_token_isl[of t] by simp
    with Inl show ?thesis by simp
  next
    case (Inr xs)
    then have "\<not> token_rejected t" using parse_token_isl[of t] by simp
    with Inr Cons.IH[of "acc @ xs"] show ?thesis by simp
  qed
qed



text \<open>
  Claim C8, as stated: every token with a piece that is not a valid integer makes the
  parser fail. It does not: the bare token \<open>2abc\<close> is not a valid integer, and the parser
  returns the sequence 1, 2, 3 for the input \<open>1 2abc 3\<close>.
\<close>

theorem invalid_token_accepted_counterexample:
  "''2abc'' \<in> set (stream_tokens ''1 2abc 3'') \<and> ''2abc'' \<noteq> ''x''
   \<and> CHR ''*'' \<notin> set ''2abc'' \<and> \<not> spec_valid_integer ''2abc''
   \<and> function_sequence_parse ''1 2abc 3'' = Inr [1, 2, 3]"
  by (simp add: parse_eval spec_valid_integer_def)

text \<open>
  Claim C8, amended. The parser fails, with no sequence returned, exactly when some token
  other than \<open>x\<close> hands \<^verbatim>\<open>std::stoi\<close> a piece (the text after the first \<open>*\<close>, the text
  before it unless that is \<open>x\<close>, or the bare token) that does not begin with an optionally
  signed run of digits, or whose leading integer lies outside \<^verbatim>\<open>int\<close>. Characters
  after a leading integer are ignored.
\<close>

theorem sequence_parse_fails_iff_rejected:
  "(\<exists>e. function_sequence_parse s = Inl e) = (\<exists>t \<in> set (stream_tokens s). token_rejected t)"
proof -
  have "(\<exists>e. function_sequence_parse s = Inl e) = isl (function_sequence_parse s)"
    by (cases "function_sequence_parse s") simp_all
  then show ?thesis
    by (simp add: function_sequence_parse_def parse_tokens_isl)
qed

theorem sequence_parse_fails_iff_rejected_witness:
  "''x2'' \<in> set (stream_tokens ''1 x2'') \<and> token_rejected ''x2''
   \<and> function_sequence_parse ''1 x2'' = Inl invalid_argument"
proof -
  have t: "''x2'' \<in> set (stream_tokens ''1 x2'')"
    by (simp add: stream_tokens_def isspace_def)
  have r: "token_rejected ''x2''"
    by (simp add: token_rejected_def leading_int_rejected_def isspace_def isdigit_def)
  have "\<exists>e. function_sequence_parse ''1 x2'' = Inl e"
    using sequence_parse_fails_iff_rejected[of "''1 x2''"] t r by blast
  moreover have "function_sequence_parse ''1 x2'' = Inl invalid_argument"
    by (simp add: parse_eval)
  ultimately show ?thesis using t r by simp
qed


section \<open>Single-precision values\<close>

text \<open>
  A finite \<^verbatim>\<open>float\<close> is a rational number and is modelled by its value. \<open>binary32 x\<close> is
  \<open>x\<close> rounded to the nearest \<^verbatim>\<open>float\<close>, ties to even: the quantum is \<open>2\<^sup>k\<close> for the least
  \<open>k \<ge> -149\<close> with \<open>\<bar>x\<bar> < 2\<^sup>k\<^sup>+\<^sup>2\<^sup>4\<close> (24 significant bits, subnormals below), found by
  counting up from \<open>-149\<close>. Values that round to a magnitude of \<open>2\<^sup>1\<^sup>2\<^sup>8\<close> or more, which
  overflow to infinity, are outside the model. \<open>float_product_u32 n s\<close> is the \<^verbatim>\<open>float\<close> value of an
  expression \<^verbatim>\<open>n * s\<close> with \<^verbatim>\<open>n\<close> a \<^verbatim>\<open>uint32_t\<close> and \<^verbatim>\<open>s\<close> a \<^verbatim>\<open>float\<close>: the integer
  is converted to \<^verbatim>\<open>float\<close>, then the product is rounded.
\<close>

definition round_half_even :: "rat \<Rightarrow> int" where
  "round_half_even y =
     (let f = \<lfloor>y\<rfloor>; r = y - of_int f
      in if r < 1 / 2 then f else if 1 / 2 < r then f + 1 else if even f then f else f + 1)"

fun quantum_exponent :: "rat \<Rightarrow> nat \<Rightarrow> int \<Rightarrow> int" where
  "quantum_exponent x 0 k = k"
| "quantum_exponent x (Suc fuel) k =
     (if x < 2 powi (k + 24) then k else quantum_exponent x fuel (k + 1))"

definition binary32 :: "rat \<Rightarrow> rat" where
  "binary32 x =
     (let k = quantum_exponent \<bar>x\<bar> 253 (- 149)
      in 2 powi k * of_int (round_half_even (x / 2 powi k)))"

definition float_product_u32 :: "nat \<Rightarrow> rat \<Rightarrow> rat" where
  "float_product_u32 n s = binary32 (binary32 (of_nat n) * s)"

section \<open>Engine state\<close>

text \<open>
  The globals of the program that the grain scheduler, the render callback and the live
  controls read and write, gathered in one record. Unsigned 32-bit fields are natural
  numbers; every operation that can wrap has the wrap-around written out (\<open>wrap32\<close>,
  \<open>sub32\<close>). The per-grain copy of the envelope table and the grain gain (always
  \<^verbatim>\<open>1.0f\<close>) are floating-point data and are left out of \<open>struct_grain\<close>.
\<close>

record struct_grain =
  address_start_frame :: nat
  address_present_grain :: nat
  frames_grain :: nat
  status_callback_grain :: bool
  target_object :: int

record engine =
  object_array_grains :: "struct_grain list"
  frames_object_grain :: nat
  count_present_frame :: nat
  active_envelopes_grain :: nat
  present_frame :: nat
  frames_total :: nat
  channels_file :: nat
  garray_channel_anchor :: "nat list"
  g_original_sequence_channels :: "nat list"
  gstatus_mute_toanchors :: bool
  g_status_audio_playback :: bool
  g_output_channels :: nat
  g_grain_sequence :: "int list"
  g_sequence_position :: nat
  g_use_grain_hopping :: bool
  g_original_sequence_string :: string
  g_jitter_range :: int
  g_travel_factor_min :: rat
  g_travel_factor_max :: rat
  g_run_channel_order_test :: bool
  g_test_frames_per_channel :: nat
  g_test_silence_frames :: nat
  g_test_frame_cursor :: nat

definition max_density_cloud_grain :: nat where
  "max_density_cloud_grain = 128"

definition kframes_envelope :: nat where
  "kframes_envelope = 1024"

text \<open>
  \<^verbatim>\<open>g_channel_offset\<close> is initialised to 0; its only assignments are inside a block
  comment.
\<close>

definition g_channel_offset :: nat where
  "g_channel_offset = 0"

definition idle_grain :: struct_grain where
  "idle_grain = \<lparr>address_start_frame = 0, address_present_grain = 0, frames_grain = 0,
                  status_callback_grain = False, target_object = 0\<rparr>"

text \<open>
  \<open>startup_engine\<close>: the globals as their initialisers and the assignments of
  \<^verbatim>\<open>playAudioFile\<close> leave them, for a source of \<open>total_fr\<close> frames in \<open>chans\<close> channels
  and a device of \<open>outs\<close> channels, with the channel-order test not running and no grain
  in the pool. The program itself starts the stream with the test running
  (\<^verbatim>\<open>triggerChannelOrderTest\<close> is called before \<^verbatim>\<open>AudioOutputUnitStart\<close>); that state is
  \<open>stream_start_engine\<close>. The callback attempts spawns during the test as well, so up
  to eight grains can be active by the time the sequence is set up; the properties of
  runs below are stated for every state that satisfies their invariant, and the
  invariants hold in both states.
\<close>

definition startup_engine :: "nat \<Rightarrow> nat \<Rightarrow> nat \<Rightarrow> engine" where
  "startup_engine total_fr chans outs =
     \<lparr>object_array_grains = replicate max_density_cloud_grain idle_grain,
      frames_object_grain = 2048,
      count_present_frame = 0,
      active_envelopes_grain = 0,
      present_frame = 0,
      frames_total = total_fr,
      channels_file = chans,
      garray_channel_anchor = [0, 1, 2],
      g_original_sequence_channels = [0, 1, 2],
      gstatus_mute_toanchors = True,
      g_status_audio_playback = False,
      g_output_channels = outs,
      g_grain_sequence = [],
      g_sequence_position = 0,
      g_use_grain_hopping = False,
      g_original_sequence_string = [],
      g_jitter_range = 1000,
      g_travel_factor_min = binary32 (9 / 10),
      g_travel_factor_max = binary32 (11 / 10),
      g_run_channel_order_test = False,
      g_test_frames_per_channel = 24000,
      g_test_silence_frames = 4800,
      g_test_frame_cursor = 0\<rparr>"

definition stream_start_engine :: "nat \<Rightarrow> nat \<Rightarrow> nat \<Rightarrow> engine" where
  "stream_start_engine total_fr chans outs =
     (startup_engine total_fr chans outs)
       \<lparr>g_run_channel_order_test := True, gstatus_mute_toanchors := False\<rparr>"

text \<open>
  \<^verbatim>\<open>setupGrainHopping\<close> with the answer \<open>y\<close> and the typed sequence: the parsed
  sequence is stored, the cursor is reset and playback is enabled.
\<close>

definition setupGrainHopping :: "engine \<Rightarrow> string \<Rightarrow> stoi_error + engine" where
  "setupGrainHopping st user_sequence =
     (case function_sequence_parse user_sequence of
        Inl e \<Rightarrow> Inl e
      | Inr parsed \<Rightarrow>
          Inr (st\<lparr>g_use_grain_hopping := True,
                  g_grain_sequence := parsed,
                  g_original_sequence_string := user_sequence,
                  g_sequence_position := 0,
                  g_status_audio_playback := True\<rparr>))"

section \<open>Sequence translation\<close>

text \<open>
  \<^verbatim>\<open>std::to_string\<close> on the positive values \<^verbatim>\<open>garray_channel_anchor[i] + 1\<close>.
\<close>

fun to_string :: "nat \<Rightarrow> string" where
  "to_string n =
     (if n < 10 then [''0123456789'' ! n]
      else to_string (n div 10) @ [''0123456789'' ! (n mod 10)])"

declare to_string.simps [simp del]

text \<open>
  \<^verbatim>\<open>translated.find(pat, pos)\<close>: the least index \<open>i \<ge> pos\<close> at which \<open>pat\<close> occurs,
  \<open>None\<close> for \<^verbatim>\<open>npos\<close>.
\<close>

definition find_from :: "string \<Rightarrow> string \<Rightarrow> nat \<Rightarrow> nat option" where
  "find_from s pat pos =
     List.find (\<lambda>i. take (length pat) (drop i s) = pat) [pos ..< Suc (length s) - length pat]"

lemma find_from_Some:
  "find_from s pat pos = Some i \<Longrightarrow> pos \<le> i \<and> i + length pat \<le> length s"
proof -
  assume "find_from s pat pos = Some i"
  then have "i \<in> set [pos ..< Suc (length s) - length pat]"
    unfolding find_from_def by (auto simp: find_Some_iff)
  then show ?thesis by auto
qed

text \<open>
  The replacement loop
  \<^verbatim>\<open>while ((index_str = translated.find(old, index_str)) != npos)
     { translated.replace(index_str, old.length(), new); index_str += new.length(); }\<close>.
  The patterns are results of \<^verbatim>\<open>std::to_string\<close> and never empty; the first branch
  only makes the function total.
\<close>

function replace_loop :: "string \<Rightarrow> string \<Rightarrow> string \<Rightarrow> nat \<Rightarrow> string" where
  "replace_loop old new translated index_str =
     (if old = [] then translated
      else case find_from translated old index_str of
             None \<Rightarrow> translated
           | Some i \<Rightarrow>
               replace_loop old new
                 (take i translated @ new @ drop (i + length old) translated)
                 (i + length new))"
  by pat_completeness auto
termination
proof (relation "measure (\<lambda>(old, new, translated, index_str). length translated - index_str)")
  show "wf (measure (\<lambda>(old, new, translated, index_str). length translated - index_str))"
    by simp
next
  fix old new translated :: string and index_str i :: nat
  assume ne: "old \<noteq> []" and f: "find_from translated old index_str = Some i"
  from find_from_Some[OF f] have b: "index_str \<le> i" "i + length old \<le> length translated"
    by simp_all
  from ne have pos: "0 < length old" by simp
  have "length (take i translated @ new @ drop (i + length old) translated) - (i + length new)
        = length translated - (i + length old)"
    using b by (simp add: min_def add.commute)
  moreover have "length translated - (i + length old) < length translated - index_str"
    using b pos by linarith
  ultimately show
    "((old, new, take i translated @ new @ drop (i + length old) translated, i + length new),
      (old, new, translated, index_str))
     \<in> measure (\<lambda>(old, new, translated, index_str). length translated - index_str)"
    by (simp del: length_append length_take length_drop)
qed

declare replace_loop.simps [simp del]

text \<open>
  \<^verbatim>\<open>std::sort\<close> with the comparator \<^verbatim>\<open>a.first.length() > b.first.length()\<close>: longest
  pattern first. The order of patterns of equal length is not fixed by \<^verbatim>\<open>std::sort\<close>;
  the model keeps their original order.
\<close>

fun insert_by_length ::
  "string \<times> string \<Rightarrow> (string \<times> string) list \<Rightarrow> (string \<times> string) list" where
  "insert_by_length r [] = [r]"
| "insert_by_length r (q # qs) =
     (if length (fst q) < length (fst r) then r # q # qs else q # insert_by_length r qs)"

definition sort_by_length :: "(string \<times> string) list \<Rightarrow> (string \<times> string) list" where
  "sort_by_length rs = foldl (\<lambda>sorted r. insert_by_length r sorted) [] rs"

definition apply_replacements :: "(string \<times> string) list \<Rightarrow> string \<Rightarrow> string" where
  "apply_replacements replacements translated =
     foldl (\<lambda>t replacement. replace_loop (fst replacement) (snd replacement) t 0)
       translated replacements"

definition translation_mappings :: "nat list \<Rightarrow> nat list list" where
  "translation_mappings new_objects =
     [[new_objects ! 0, new_objects ! 1, new_objects ! 2],
      [new_objects ! 0, new_objects ! 2, new_objects ! 1],
      [new_objects ! 1, new_objects ! 0, new_objects ! 2],
      [new_objects ! 1, new_objects ! 2, new_objects ! 0],
      [new_objects ! 2, new_objects ! 0, new_objects ! 1],
      [new_objects ! 2, new_objects ! 1, new_objects ! 0]]"

text \<open>
  \<^verbatim>\<open>show_sequence_translations\<close> prints one translated string per option; the model
  returns the strings in the order printed (none when hopping is off or the sequence is
  empty).
\<close>

definition show_sequence_translations :: "engine \<Rightarrow> string list" where
  "show_sequence_translations st =
     (if g_use_grain_hopping st \<and> g_grain_sequence st \<noteq> [] then
        (let new_objects = [garray_channel_anchor st ! 0 + 1,
                            garray_channel_anchor st ! 1 + 1,
                            garray_channel_anchor st ! 2 + 1]
         in map (\<lambda>mapping.
                  apply_replacements
                    (sort_by_length
                       [(to_string (garray_channel_anchor st ! 0 + 1), to_string (mapping ! 0)),
                        (to_string (garray_channel_anchor st ! 1 + 1), to_string (mapping ! 1)),
                        (to_string (garray_channel_anchor st ! 2 + 1), to_string (mapping ! 2))])
                    (g_original_sequence_string st))
              (translation_mappings new_objects))
      else [])"

text \<open>
  The strings printed after \<^verbatim>\<open>setupGrainHopping\<close> has read the sequence \<open>1 2 3\<close> on
  the default channel assignment 1, 2, 3.
\<close>

definition translations_1_2_3 :: "string list" where
  "translations_1_2_3 =
     (case setupGrainHopping (startup_engine 48000 2 6) ''1 2 3'' of
        Inl e \<Rightarrow> []
      | Inr st \<Rightarrow> show_sequence_translations st)"

lemma to_string_small:
  "to_string 1 = ''1''" "to_string 2 = ''2''" "to_string 3 = ''3''"
  "to_string (Suc 0) = ''1''" "to_string (Suc (Suc 0)) = ''2''"
  "to_string (Suc (Suc (Suc 0))) = ''3''"
  by (simp_all add: to_string.simps)

lemma show_sequence_translations_1_2_3:
  assumes st: "g_use_grain_hopping st" "g_grain_sequence st = [1, 2, 3]"
    "garray_channel_anchor st = [0, 1, 2]" "g_original_sequence_string st = ''1 2 3''"
  shows "show_sequence_translations st
       = [''1 2 3'', ''1 2 2'', ''1 1 3'', ''1 1 1'', ''2 1 2'', ''1 2 1'']"
proof -
  have "show_sequence_translations st =
     map (\<lambda>mapping. apply_replacements
            (sort_by_length [(''1'', to_string (mapping ! 0)), (''2'', to_string (mapping ! 1)),
                             (''3'', to_string (mapping ! 2))]) ''1 2 3'')
       [[1, 2, 3], [1, 3, 2], [2, 1, 3], [2, 3, 1], [3, 1, 2], [3, 2, 1]]"
    by (simp add: show_sequence_translations_def translation_mappings_def st to_string_small)
  also have "\<dots> = [''1 2 3'', ''1 2 2'', ''1 1 3'', ''1 1 1'', ''2 1 2'', ''1 2 1'']"
    by (simp add: to_string_small sort_by_length_def apply_replacements_def
        replace_loop.simps find_from_def)
  finally show ?thesis .
qed



text \<open>
  Claim C1. With objects on channels 1, 2, 3 and the sequence text \<open>1 2 3\<close>, six strings
  are printed. The replacements of one option are applied one after the other to the
  same string, so an id written by an earlier replacement is rewritten by a later one:
  the fourth option, announced as 1\<rightarrow>2, 2\<rightarrow>3, 3\<rightarrow>1, prints \<open>1 1 1\<close> and not \<open>2 3 1\<close>, and
  no order of its three replacements gives \<open>2 3 1\<close>.
\<close>

theorem translations_of_1_2_3:
  "translations_1_2_3 = [''1 2 3'', ''1 2 2'', ''1 1 3'', ''1 1 1'', ''2 1 2'', ''1 2 1'']
   \<and> translations_1_2_3 ! 3 \<noteq> ''2 3 1''
   \<and> list_all (\<lambda>replacements. apply_replacements replacements ''1 2 3'' \<noteq> ''2 3 1'')
        [[(''1'', ''2''), (''2'', ''3''), (''3'', ''1'')],
         [(''1'', ''2''), (''3'', ''1''), (''2'', ''3'')],
         [(''2'', ''3''), (''1'', ''2''), (''3'', ''1'')],
         [(''2'', ''3''), (''3'', ''1''), (''1'', ''2'')],
         [(''3'', ''1''), (''1'', ''2''), (''2'', ''3'')],
         [(''3'', ''1''), (''2'', ''3''), (''1'', ''2'')]]"
proof -
  have p: "function_sequence_parse ''1 2 3'' = Inr [1, 2, 3]"
    by (simp add: parse_eval)
  obtain st where a: "setupGrainHopping (startup_engine 48000 2 6) ''1 2 3'' = Inr st"
    by (simp add: setupGrainHopping_def p)
  then have st: "g_use_grain_hopping st" "g_grain_sequence st = [1, 2, 3]"
    "garray_channel_anchor st = [0, 1, 2]" "g_original_sequence_string st = ''1 2 3''"
    by (auto simp: setupGrainHopping_def p startup_engine_def)
  have t: "translations_1_2_3
       = [''1 2 3'', ''1 2 2'', ''1 1 3'', ''1 1 1'', ''2 1 2'', ''1 2 1'']"
    unfolding translations_1_2_3_def a using show_sequence_translations_1_2_3[OF st] by simp
  have o: "list_all (\<lambda>replacements. apply_replacements replacements ''1 2 3'' \<noteq> ''2 3 1'')
        [[(''1'', ''2''), (''2'', ''3''), (''3'', ''1'')],
         [(''1'', ''2''), (''3'', ''1''), (''2'', ''3'')],
         [(''2'', ''3''), (''1'', ''2''), (''3'', ''1'')],
         [(''2'', ''3''), (''3'', ''1''), (''1'', ''2'')],
         [(''3'', ''1''), (''1'', ''2''), (''2'', ''3'')],
         [(''3'', ''1''), (''2'', ''3''), (''1'', ''2'')]]"
    by (simp add: apply_replacements_def replace_loop.simps find_from_def)
  have n: "translations_1_2_3 ! 3 \<noteq> ''2 3 1''"
    unfolding t by simp
  from t n o show ?thesis by blast
qed


section \<open>Grain scheduler\<close>

text \<open>
  Unsigned 32-bit arithmetic: \<open>wrap32\<close> reduces a sum, \<open>sub32 a b\<close> is the wrapping
  difference \<^verbatim>\<open>a - b\<close>, \<open>to_u32\<close> is \<^verbatim>\<open>static_cast<uint32_t>\<close> of a signed integer.
  \<open>float_to_u32\<close> is the cast of a \<^verbatim>\<open>float\<close> to \<^verbatim>\<open>uint32_t\<close>: the fraction is
  discarded. The cast is defined by the language only for values in the range of the
  target type.
\<close>

definition wrap32 :: "nat \<Rightarrow> nat" where
  "wrap32 n = n mod 4294967296"

definition sub32 :: "nat \<Rightarrow> nat \<Rightarrow> nat" where
  "sub32 a b = (a mod 4294967296 + 4294967296 - b mod 4294967296) mod 4294967296"

definition to_u32 :: "int \<Rightarrow> nat" where
  "to_u32 x = nat (x mod 4294967296)"

definition float_to_u32 :: "rat \<Rightarrow> nat" where
  "float_to_u32 x = nat \<lfloor>x\<rfloor> mod 4294967296"

text \<open>
  \<^verbatim>\<open>initialize_grain\<close> fills the slot it is given and, when hopping is on and the
  sequence is not empty, reads the target at the cursor and advances the cursor modulo
  the sequence length (\<^verbatim>\<open>size_t\<close> arithmetic). It returns the slot and the state.
  The read is \<^verbatim>\<open>operator[]\<close> of a \<^verbatim>\<open>std::vector\<close>, unchecked in the source and undefined
  when the cursor is not below the size; here it is \<open>!\<close>, whose value is then
  unspecified. The section on the sequence cursor shows when the cursor is a valid index
  and a run in which it is not.
\<close>

definition initialize_grain ::
  "engine \<Rightarrow> struct_grain \<Rightarrow> nat \<Rightarrow> nat \<Rightarrow> struct_grain \<times> engine" where
  "initialize_grain st idata_grain iaddress_start_frame iframes_grain =
     (let g = idata_grain\<lparr>address_start_frame := iaddress_start_frame,
                           address_present_grain := 0,
                           frames_grain := iframes_grain\<rparr>
      in if g_use_grain_hopping st \<and> g_grain_sequence st \<noteq> [] then
           (g\<lparr>target_object := g_grain_sequence st ! g_sequence_position st,
              status_callback_grain := True\<rparr>,
            st\<lparr>g_sequence_position :=
                 ((g_sequence_position st + 1) mod 18446744073709551616)
                   mod length (g_grain_sequence st)\<rparr>)
         else (g\<lparr>target_object := - 2, status_callback_grain := True\<rparr>, st))"

text \<open>The scan of the pool for the first slot that is not active.\<close>

fun first_inactive :: "struct_grain list \<Rightarrow> nat option" where
  "first_inactive [] = None"
| "first_inactive (g # gs) =
     (if \<not> status_callback_grain g then Some 0 else map_option Suc (first_inactive gs))"

text \<open>
  \<^verbatim>\<open>function_process_grain\<close>. The two random draws are arguments: \<open>jitter\<close> is the
  value of \<^verbatim>\<open>jitterDist(rng)\<close>, drawn from \<open>- g_jitter_range\<close> to \<open>g_jitter_range\<close>, and
  \<open>scale\<close> is the \<^verbatim>\<open>float\<close> value of \<^verbatim>\<open>scaleDist(rng)\<close>, drawn from
  \<open>g_travel_factor_min\<close> to \<open>g_travel_factor_max\<close>.
\<close>

definition function_process_grain :: "engine \<Rightarrow> int \<Rightarrow> rat \<Rightarrow> engine" where
  "function_process_grain st jitter scale =
     (if 8 \<le> active_envelopes_grain st then st
      else case first_inactive (object_array_grains st) of
        None \<Rightarrow> st
      | Some slot \<Rightarrow>
         (let base_frames_grain = frames_object_grain st;
              start_raw = int (present_frame st) + jitter;
              start_raw = (if start_raw < 0 then 0 else start_raw);
              last_frame = int (sub32 (frames_total st) 1);
              start_raw = (if last_frame < start_raw then last_frame else start_raw);
              field_start_frame = to_u32 start_raw;
              field_frames_grain = float_to_u32 (float_product_u32 base_frames_grain scale);
              field_frames_grain = (if field_frames_grain < 64 then 64 else field_frames_grain);
              field_frames_grain =
                (if frames_total st < wrap32 (field_start_frame + field_frames_grain)
                 then sub32 (frames_total st) field_start_frame
                 else field_frames_grain);
              (new_grain, st') =
                initialize_grain st (object_array_grains st ! slot)
                  field_start_frame field_frames_grain
          in st'\<lparr>object_array_grains := (object_array_grains st)[slot := new_grain],
                 active_envelopes_grain := wrap32 (active_envelopes_grain st + 1)\<rparr>))"

section \<open>Render callback\<close>

text \<open>
  The mix buffer holds \<^verbatim>\<open>float\<close> sums. Each cell is modelled by the list of the terms
  accumulated into it, in order: \<open>GrainTerm file_ch frame env_idx frames\<close> stands for
  \<^verbatim>\<open>kWetGain * (normal_sample_channel[file_ch] * (frame_env * grain_base_gain))\<close> read
  at source frame \<open>frame\<close> with envelope index \<open>env_idx\<close> for a grain of \<open>frames\<close> frames,
  and \<open>TestTone ch\<close> for the sine sample of the channel-order test. The empty list is
  \<^verbatim>\<open>0.0f\<close>. The dry layer is multiplied by \<^verbatim>\<open>kDryGain = 0.0f\<close> and leaves every
  cell at zero. The final conversion of the mix to the device's sample format is not
  modelled.
\<close>

datatype mix_term = GrainTerm nat nat nat nat | TestTone nat

type_synonym mix_buffer = "mix_term list list"

record render_in =
  icount_frames :: nat
  outChannels :: nat
  jitter_draw :: int
  scale_draw :: rat
  interval_product :: rat

definition mixIndex :: "render_in \<Rightarrow> nat \<Rightarrow> nat \<Rightarrow> nat" where
  "mixIndex inp ch fr = ch * icount_frames inp + fr"

definition accumulate :: "mix_buffer \<Rightarrow> nat \<Rightarrow> mix_term \<Rightarrow> mix_buffer" where
  "accumulate mix idx t = mix[idx := mix ! idx @ [t]]"

definition frames_grain_process :: "render_in \<Rightarrow> struct_grain \<Rightarrow> nat" where
  "frames_grain_process inp element_grain =
     min (icount_frames inp)
       (sub32 (frames_grain element_grain) (address_present_grain element_grain))"

text \<open>
  The envelope index: the sum is a \<^verbatim>\<open>uint32_t\<close>, the product with
  \<^verbatim>\<open>kframes_envelope - 1\<close> and the quotient are 64-bit (the product is below \<open>2\<^sup>4\<^sup>2\<close>), the
  result is stored in a \<^verbatim>\<open>uint32_t\<close> and then clamped. Division by a grain length of
  zero is undefined in the source (it is 0 here); the section on the envelope index shows
  that no frame is processed for such a grain.
\<close>

definition env_index :: "struct_grain \<Rightarrow> nat \<Rightarrow> nat" where
  "env_index element_grain count_frame_process =
     (let env_idx =
            wrap32 ((wrap32 (address_present_grain element_grain + count_frame_process)
                       * (kframes_envelope - 1))
                    div frames_grain element_grain)
      in if kframes_envelope \<le> env_idx then kframes_envelope - 1 else env_idx)"

text \<open>The chain that maps a sequence value to \<^verbatim>\<open>target_ch\<close>.\<close>

definition resolve_target_ch :: "engine \<Rightarrow> int \<Rightarrow> nat" where
  "resolve_target_ch st target =
     (if target = int (g_original_sequence_channels st ! 0) + 1 then garray_channel_anchor st ! 0
      else if target = int (g_original_sequence_channels st ! 1) + 1 then garray_channel_anchor st ! 1
      else if target = int (g_original_sequence_channels st ! 2) + 1 then garray_channel_anchor st ! 2
      else if target = 1 then garray_channel_anchor st ! 0
      else if target = 2 then garray_channel_anchor st ! 1
      else if target = 3 then garray_channel_anchor st ! 2
      else to_u32 (target - 1))"

definition final_target_ch :: "engine \<Rightarrow> int \<Rightarrow> nat" where
  "final_target_ch st target = wrap32 (resolve_target_ch st target + g_channel_offset)"

text \<open>The body of the per-frame loop of one grain.\<close>

definition mix_frame ::
  "engine \<Rightarrow> render_in \<Rightarrow> struct_grain \<Rightarrow> mix_buffer \<Rightarrow> nat \<Rightarrow> mix_buffer" where
  "mix_frame st inp element_grain mix count_frame_process =
     (let frame_grain_audio =
            wrap32 (address_start_frame element_grain + address_present_grain element_grain
                    + count_frame_process)
      in if frames_total st \<le> frame_grain_audio then mix
         else
           (let env_idx = env_index element_grain count_frame_process
            in if target_object element_grain = - 1 then mix
               else if target_object element_grain = - 2 then
                 foldl (\<lambda>m process_ch.
                          accumulate m (mixIndex inp process_ch count_frame_process)
                            (GrainTerm (process_ch mod channels_file st) frame_grain_audio
                               env_idx (frames_grain element_grain)))
                   mix [0 ..< outChannels inp]
               else
                 (let target_ch = resolve_target_ch st (target_object element_grain);
                      final = final_target_ch st (target_object element_grain)
                  in if final < outChannels inp then
                       accumulate mix (mixIndex inp final count_frame_process)
                         (GrainTerm (target_ch mod channels_file st) frame_grain_audio
                            env_idx (frames_grain element_grain))
                     else mix)))"

definition mix_grain ::
  "engine \<Rightarrow> render_in \<Rightarrow> struct_grain \<Rightarrow> mix_buffer \<Rightarrow> mix_buffer" where
  "mix_grain st inp element_grain mix =
     foldl (mix_frame st inp element_grain) mix [0 ..< frames_grain_process inp element_grain]"

text \<open>
  The loop over the pool: an active grain is mixed, its playhead advances, and when the
  playhead has reached the grain length the slot is released and the active count is
  decremented. The function returns the pool, the count and the mix.
\<close>

fun grains_loop ::
  "engine \<Rightarrow> render_in \<Rightarrow> struct_grain list \<Rightarrow> nat \<Rightarrow> mix_buffer
   \<Rightarrow> struct_grain list \<times> nat \<times> mix_buffer" where
  "grains_loop st inp [] active mix = ([], active, mix)"
| "grains_loop st inp (element_grain # rest) active mix =
     (if \<not> status_callback_grain element_grain then
        (case grains_loop st inp rest active mix of
           (rest', active', mix') \<Rightarrow> (element_grain # rest', active', mix'))
      else
        (let mixed = mix_grain st inp element_grain mix;
             advanced = element_grain\<lparr>address_present_grain :=
                          wrap32 (address_present_grain element_grain
                                  + frames_grain_process inp element_grain)\<rparr>;
             finished = (frames_grain advanced \<le> address_present_grain advanced)
         in case grains_loop st inp rest (if finished then sub32 active 1 else active) mixed of
              (rest', active', mix') \<Rightarrow>
                ((if finished then advanced\<lparr>status_callback_grain := False\<rparr> else advanced)
                   # rest', active', mix')))"

text \<open>
  The frame loop of the channel-order test, with its \<^verbatim>\<open>break\<close>: the result says whether
  the test is still running.
\<close>

fun test_loop ::
  "engine \<Rightarrow> render_in \<Rightarrow> nat list \<Rightarrow> mix_buffer \<Rightarrow> bool \<times> mix_buffer" where
  "test_loop st inp [] mix = (True, mix)"
| "test_loop st inp (fr # frs) mix =
     (let block = wrap32 (g_test_frames_per_channel st + g_test_silence_frames st);
          sine_frames_behind = wrap32 (g_test_frame_cursor st + fr);
          channel_now = (if 0 < block then sine_frames_behind div block else 0)
      in if g_output_channels st \<le> channel_now then (False, mix)
         else
           (let within_block = (if 0 < block then sine_frames_behind mod block else 0)
            in test_loop st inp frs
                 (foldl (\<lambda>m ch.
                           m[mixIndex inp ch fr :=
                               (if ch = wrap32 (channel_now + g_channel_offset)
                                   \<and> within_block < g_test_frames_per_channel st
                                then [TestTone channel_now] else [])])
                    mix [0 ..< outChannels inp])))"

text \<open>
  The callback, in the order of the source. \<open>trigger_grain\<close>: the frame counter advances
  and, once it has reached the trigger interval, a spawn is attempted and the counter is
  reset; \<open>interval_product\<close> is the \<^verbatim>\<open>float\<close> value of
  \<^verbatim>\<open>frames_object_grain * g_interval_multiplier\<close>.
\<close>

definition trigger_grain :: "engine \<Rightarrow> render_in \<Rightarrow> engine" where
  "trigger_grain st inp =
     (let st1 = st\<lparr>count_present_frame :=
                     wrap32 (count_present_frame st + icount_frames inp)\<rparr>;
          interval_start_frames = float_to_u32 (interval_product inp)
      in if interval_start_frames \<le> count_present_frame st1
         then (function_process_grain st1 (jitter_draw inp) (scale_draw inp))
                \<lparr>count_present_frame := 0\<rparr>
         else st1)"

text \<open>
  \<open>advance_cursor\<close>: the block guarded by
  \<^verbatim>\<open>!g_run_channel_order_test && g_status_audio_playback\<close>, which writes the dry layer
  (zero) and moves the playback cursor.
\<close>

definition advance_cursor :: "engine \<Rightarrow> render_in \<Rightarrow> engine" where
  "advance_cursor st inp =
     (let total_fr = frames_total st;
          callback_start_fr = present_frame st
      in if \<not> g_run_channel_order_test st \<and> g_status_audio_playback st
         then st\<lparr>present_frame :=
                   min (wrap32 (callback_start_fr + icount_frames inp)) total_fr\<rparr>
         else st)"

text \<open>
  \<open>process_grains\<close>: the grain loop, guarded by
  \<^verbatim>\<open>g_status_audio_playback && callback_start_fr < total_fr\<close>, where
  \<open>callback_start_fr\<close> is the cursor read before \<open>advance_cursor\<close>.
\<close>

definition process_grains ::
  "engine \<Rightarrow> render_in \<Rightarrow> nat \<Rightarrow> mix_buffer \<Rightarrow> engine \<times> mix_buffer" where
  "process_grains st inp callback_start_fr mix =
     (if g_status_audio_playback st \<and> callback_start_fr < frames_total st
      then (case grains_loop st inp (object_array_grains st) (active_envelopes_grain st) mix of
              (grains, active, mix') \<Rightarrow>
                (st\<lparr>object_array_grains := grains, active_envelopes_grain := active\<rparr>, mix'))
      else (st, mix))"

definition channel_order_test ::
  "engine \<Rightarrow> render_in \<Rightarrow> mix_buffer \<Rightarrow> engine \<times> mix_buffer" where
  "channel_order_test st inp mix =
     (if g_run_channel_order_test st \<and> 0 < g_output_channels st then
        (case test_loop st inp [0 ..< icount_frames inp] mix of
           (running, mix') \<Rightarrow>
             (st\<lparr>g_run_channel_order_test := running,
                  gstatus_mute_toanchors := (if running then gstatus_mute_toanchors st else True),
                  g_test_frame_cursor :=
                    wrap32 (g_test_frame_cursor st + icount_frames inp)\<rparr>,
              mix'))
      else (st, mix))"

definition function_callback_audio :: "engine \<Rightarrow> render_in \<Rightarrow> engine \<times> mix_buffer" where
  "function_callback_audio st inp =
     (let st2 = trigger_grain st inp;
          callback_start_fr = present_frame st2;
          mix0 = replicate (outChannels inp * icount_frames inp) [];
          st3 = advance_cursor st2 inp;
          (st4, mix1) = process_grains st3 inp callback_start_fr mix0
      in channel_order_test st4 inp mix1)"

section \<open>Live controls\<close>

text \<open>
  The \<open>h\<close> command of \<^verbatim>\<open>flive_control_monitor\<close> runs on the control thread while the
  audio unit keeps calling the render callback; the source has no lock and no atomic
  variable. Its statements are therefore separate steps. \<open>live_assign_sequence\<close>: the
  typed line is parsed and assigned to \<^verbatim>\<open>g_grain_sequence\<close>, then the text is stored
  (the callback neither reads nor writes \<^verbatim>\<open>g_original_sequence_string\<close>, so the two
  assignments are one step). \<open>live_reset_cursor\<close>: the cursor is reset when it is not
  below the size of the sequence. \<open>live_replace_sequence\<close> is the handler when no
  callback runs in between; an empty line keeps the sequence.
\<close>

definition live_assign_sequence :: "engine \<Rightarrow> string \<Rightarrow> stoi_error + engine" where
  "live_assign_sequence st user_input =
     (case function_sequence_parse user_input of
        Inl e \<Rightarrow> Inl e
      | Inr parsed \<Rightarrow>
          Inr (st\<lparr>g_grain_sequence := parsed, g_original_sequence_string := user_input\<rparr>))"

definition live_reset_cursor :: "engine \<Rightarrow> engine" where
  "live_reset_cursor st =
     (if length (g_grain_sequence st) \<le> g_sequence_position st
      then st\<lparr>g_sequence_position := 0\<rparr> else st)"

definition live_replace_sequence :: "engine \<Rightarrow> string \<Rightarrow> stoi_error + engine" where
  "live_replace_sequence st user_input =
     (if user_input = [] then Inr st
      else case live_assign_sequence st user_input of
             Inl e \<Rightarrow> Inl e
           | Inr st' \<Rightarrow> Inr (live_reset_cursor st'))"

text \<open>
  Runs of the program: spawn attempts, render callbacks, the two steps of a sequence
  replacement and the initial sequence setup, in any order, so that a callback can fall
  between the assignment of a new sequence and the reset of the cursor. A parse error
  ends the run.
\<close>

datatype event =
    SpawnAttempt int rat
  | Render render_in
  | AssignSequence string
  | ResetCursor
  | SetupHopping string

fun step :: "engine \<Rightarrow> event \<Rightarrow> stoi_error + engine" where
  "step st (SpawnAttempt jitter scale) = Inr (function_process_grain st jitter scale)"
| "step st (Render inp) = Inr (fst (function_callback_audio st inp))"
| "step st (AssignSequence user_input) =
     (if user_input = [] then Inr st else live_assign_sequence st user_input)"
| "step st ResetCursor = Inr (live_reset_cursor st)"
| "step st (SetupHopping user_sequence) = setupGrainHopping st user_sequence"

fun run_events :: "engine \<Rightarrow> event list \<Rightarrow> stoi_error + engine" where
  "run_events st [] = Inr st"
| "run_events st (e # es) =
     (case step st e of Inl err \<Rightarrow> Inl err | Inr st' \<Rightarrow> run_events st' es)"

section \<open>The concurrency limit\<close>

definition count_active :: "struct_grain list \<Rightarrow> nat" where
  "count_active gs = length (filter status_callback_grain gs)"

definition pool_inv :: "engine \<Rightarrow> bool" where
  "pool_inv st =
     (active_envelopes_grain st = count_active (object_array_grains st)
      \<and> active_envelopes_grain st \<le> 8)"

lemma first_inactive_Some:
  "first_inactive gs = Some i \<Longrightarrow> i < length gs \<and> \<not> status_callback_grain (gs ! i)"
  by (induction gs arbitrary: i) (auto split: if_splits)

lemma count_active_update:
  "i < length gs \<Longrightarrow> \<not> status_callback_grain (gs ! i) \<Longrightarrow> status_callback_grain g
   \<Longrightarrow> count_active (gs[i := g]) = Suc (count_active gs)"
  unfolding count_active_def
proof (induction gs arbitrary: i)
  case Nil
  then show ?case by simp
next
  case (Cons a gs)
  then show ?case by (cases i) auto
qed

lemma initialize_grain_status:
  "status_callback_grain (fst (initialize_grain st g s n))"
  by (simp add: initialize_grain_def Let_def)

lemma initialize_grain_pool:
  "object_array_grains (snd (initialize_grain st g s n)) = object_array_grains st"
  "active_envelopes_grain (snd (initialize_grain st g s n)) = active_envelopes_grain st"
  by (simp_all add: initialize_grain_def Let_def)

lemma process_grain_at_limit:
  "8 \<le> active_envelopes_grain st \<Longrightarrow> function_process_grain st jitter scale = st"
  by (simp add: function_process_grain_def)

lemma process_grain_spawns:
  assumes "active_envelopes_grain st < 8" "first_inactive (object_array_grains st) = Some slot"
  shows "\<exists>S N. function_process_grain st jitter scale =
           (snd (initialize_grain st (object_array_grains st ! slot) S N))
             \<lparr>object_array_grains :=
                (object_array_grains st)
                  [slot := fst (initialize_grain st (object_array_grains st ! slot) S N)],
              active_envelopes_grain := wrap32 (active_envelopes_grain st + 1)\<rparr>"
  using assms
  apply (simp add: function_process_grain_def Let_def split_beta split del: if_split)
  apply (intro exI)
  apply (rule refl)
  done

lemma process_grain_pool:
  assumes "active_envelopes_grain st < 8" "first_inactive (object_array_grains st) = Some slot"
  shows "\<exists>g. status_callback_grain g \<and>
             object_array_grains (function_process_grain st jitter scale)
               = (object_array_grains st)[slot := g] \<and>
             active_envelopes_grain (function_process_grain st jitter scale)
               = active_envelopes_grain st + 1"
proof -
  have w: "wrap32 (active_envelopes_grain st + 1) = active_envelopes_grain st + 1"
    using assms(1) by (simp add: wrap32_def)
  from process_grain_spawns[OF assms, of jitter scale] obtain S N where
    "function_process_grain st jitter scale =
           (snd (initialize_grain st (object_array_grains st ! slot) S N))
             \<lparr>object_array_grains :=
                (object_array_grains st)
                  [slot := fst (initialize_grain st (object_array_grains st ! slot) S N)],
              active_envelopes_grain := wrap32 (active_envelopes_grain st + 1)\<rparr>"
    by blast
  then show ?thesis
    using w initialize_grain_status[of st "object_array_grains st ! slot" S N] by auto
qed

lemma process_grain_pool_inv:
  assumes "pool_inv st"
  shows "pool_inv (function_process_grain st jitter scale)"
proof (cases "8 \<le> active_envelopes_grain st")
  case True
  then show ?thesis using assms by (simp add: process_grain_at_limit)
next
  case False
  show ?thesis
  proof (cases "first_inactive (object_array_grains st)")
    case None
    then show ?thesis using assms False by (simp add: function_process_grain_def)
  next
    case (Some slot)
    from False have lt: "active_envelopes_grain st < 8" by simp
    from process_grain_pool[OF lt Some, of jitter scale] obtain g where
      g: "status_callback_grain g"
      "object_array_grains (function_process_grain st jitter scale)
               = (object_array_grains st)[slot := g]"
      "active_envelopes_grain (function_process_grain st jitter scale)
               = active_envelopes_grain st + 1" by blast
    from first_inactive_Some[OF Some] g(1)
    have "count_active ((object_array_grains st)[slot := g]) = Suc (count_active (object_array_grains st))"
      by (simp add: count_active_update)
    with g assms lt show ?thesis by (simp add: pool_inv_def)
  qed
qed

lemma sub32_le: "b \<le> a \<Longrightarrow> a < 4294967296 \<Longrightarrow> sub32 a b = a - b"
proof -
  assume le: "b \<le> a" and lt: "a < 4294967296"
  then have "a mod 4294967296 + 4294967296 - b mod 4294967296 = (a - b) + 4294967296"
    by simp
  then have "sub32 a b = ((a - b) + 4294967296) mod 4294967296"
    by (simp only: sub32_def)
  also have "\<dots> = a - b" using lt by simp
  finally show ?thesis .
qed

lemma sub32_one: "0 < a \<Longrightarrow> a < 4294967296 \<Longrightarrow> sub32 a 1 = a - 1"
  using sub32_le[of 1 a] by simp

lemma grains_loop_count:
  "active = count_active gs + k \<Longrightarrow> active < 4294967296 \<Longrightarrow>
   grains_loop st inp gs active mix = (gs', active', mix') \<Longrightarrow>
   active' = count_active gs' + k \<and> count_active gs' \<le> count_active gs \<and> length gs' = length gs"
proof (induction gs arbitrary: active mix gs' active' mix' k)
  case Nil
  then show ?case by (simp add: count_active_def)
next
  case (Cons g gs)
  show ?case
  proof (cases "status_callback_grain g")
    case False
    obtain r a m where r: "grains_loop st inp gs active mix = (r, a, m)"
      by (cases "grains_loop st inp gs active mix") auto
    from Cons.prems(1) False have "active = count_active gs + k" by (simp add: count_active_def)
    from Cons.IH[OF this Cons.prems(2) r] Cons.prems(3) r False
    show ?thesis by (auto simp: count_active_def)
  next
    case True
    define mixed where "mixed = mix_grain st inp g mix"
    define advanced where "advanced = g\<lparr>address_present_grain :=
                          wrap32 (address_present_grain g + frames_grain_process inp g)\<rparr>"
    define finished where "finished = (frames_grain advanced \<le> address_present_grain advanced)"
    define a0 where "a0 = (if finished then sub32 active 1 else active)"
    obtain r a m where r: "grains_loop st inp gs a0 mixed = (r, a, m)"
      by (cases "grains_loop st inp gs a0 mixed") auto
    from Cons.prems(1) True have act: "active = Suc (count_active gs) + k"
      by (simp add: count_active_def)
    have res: "gs' = (if finished then advanced\<lparr>status_callback_grain := False\<rparr> else advanced) # r"
      "active' = a" "mix' = m"
      using Cons.prems(3) True r
      by (simp_all add: Let_def mixed_def[symmetric] advanced_def[symmetric]
          finished_def[symmetric] a0_def[symmetric])
    have adv: "status_callback_grain advanced" using True by (simp add: advanced_def)
    show ?thesis
    proof (cases finished)
      case True
      then have "a0 = active - 1" using act Cons.prems(2) sub32_one[of active] by (simp add: a0_def)
      then have "a0 = count_active gs + k" "a0 < 4294967296" using act Cons.prems(2) by simp_all
      from Cons.IH[OF this r] res True \<open>status_callback_grain g\<close>
      show ?thesis by (simp add: count_active_def)
    next
      case False
      then have "a0 = count_active gs + Suc k" "a0 < 4294967296"
        using act Cons.prems(2) by (simp_all add: a0_def)
      from Cons.IH[OF this r] res False adv \<open>status_callback_grain g\<close>
      show ?thesis by (simp add: count_active_def)
    qed
  qed
qed


lemma pool_inv_cong:
  "object_array_grains st' = object_array_grains st \<Longrightarrow>
   active_envelopes_grain st' = active_envelopes_grain st \<Longrightarrow> pool_inv st' = pool_inv st"
  by (simp add: pool_inv_def)

lemma trigger_grain_pool_inv:
  assumes "pool_inv st"
  shows "pool_inv (trigger_grain st inp)"
proof -
  let ?st1 = "st\<lparr>count_present_frame := wrap32 (count_present_frame st + icount_frames inp)\<rparr>"
  have 1: "pool_inv ?st1" using assms by (simp add: pool_inv_def)
  have "pool_inv (function_process_grain ?st1 (jitter_draw inp) (scale_draw inp))"
    using 1 by (rule process_grain_pool_inv)
  then have 2: "pool_inv ((function_process_grain ?st1 (jitter_draw inp) (scale_draw inp))
                  \<lparr>count_present_frame := 0\<rparr>)"
    by (simp add: pool_inv_def)
  show ?thesis
    unfolding trigger_grain_def Let_def using 1 2 by simp
qed

lemma advance_cursor_pool:
  "object_array_grains (advance_cursor st inp) = object_array_grains st"
  "active_envelopes_grain (advance_cursor st inp) = active_envelopes_grain st"
  by (simp_all add: advance_cursor_def Let_def)

lemma process_grains_pool_inv:
  assumes "pool_inv st"
  shows "pool_inv (fst (process_grains st inp start mix))"
proof (cases "g_status_audio_playback st \<and> start < frames_total st")
  case False
  then show ?thesis using assms by (auto simp: process_grains_def)
next
  case True
  obtain gs a m where r: "grains_loop st inp (object_array_grains st) (active_envelopes_grain st) mix
                           = (gs, a, m)"
    by (cases "grains_loop st inp (object_array_grains st) (active_envelopes_grain st) mix") auto
  from assms have "active_envelopes_grain st = count_active (object_array_grains st) + 0"
    "active_envelopes_grain st < 4294967296" by (simp_all add: pool_inv_def)
  from grains_loop_count[OF this r] assms
  have "a = count_active gs" "a \<le> 8" by (simp_all add: pool_inv_def)
  then show ?thesis using True r by (simp add: process_grains_def pool_inv_def)
qed

lemma channel_order_test_pool:
  "object_array_grains (fst (channel_order_test st inp mix)) = object_array_grains st"
  "active_envelopes_grain (fst (channel_order_test st inp mix)) = active_envelopes_grain st"
  by (simp_all add: channel_order_test_def split: prod.splits)

lemma callback_pool_inv:
  assumes "pool_inv st"
  shows "pool_inv (fst (function_callback_audio st inp))"
proof -
  let ?st2 = "trigger_grain st inp"
  let ?st3 = "advance_cursor ?st2 inp"
  let ?mix0 = "replicate (outChannels inp * icount_frames inp) []"
  let ?r = "process_grains ?st3 inp (present_frame ?st2) ?mix0"
  have "pool_inv ?st2" using assms by (rule trigger_grain_pool_inv)
  then have "pool_inv ?st3" by (simp add: pool_inv_def advance_cursor_pool)
  then have "pool_inv (fst ?r)" by (rule process_grains_pool_inv)
  then have "pool_inv (fst (channel_order_test (fst ?r) inp (snd ?r)))"
    by (simp add: pool_inv_def channel_order_test_pool)
  then show ?thesis
    by (simp add: function_callback_audio_def Let_def split_beta)
qed

lemma live_assign_sequence_pool:
  "live_assign_sequence st user_input = Inr st' \<Longrightarrow>
   object_array_grains st' = object_array_grains st \<and>
   active_envelopes_grain st' = active_envelopes_grain st"
  by (auto simp: live_assign_sequence_def split: sum.splits)

lemma live_reset_cursor_pool:
  "object_array_grains (live_reset_cursor st) = object_array_grains st"
  "active_envelopes_grain (live_reset_cursor st) = active_envelopes_grain st"
  by (simp_all add: live_reset_cursor_def)

lemma setupGrainHopping_pool:
  "setupGrainHopping st user_sequence = Inr st' \<Longrightarrow>
   object_array_grains st' = object_array_grains st \<and>
   active_envelopes_grain st' = active_envelopes_grain st"
  by (auto simp: setupGrainHopping_def split: sum.splits)

lemma step_pool_inv: "pool_inv st \<Longrightarrow> step st e = Inr st' \<Longrightarrow> pool_inv st'"
proof (cases e)
  case (SpawnAttempt j s)
  assume "pool_inv st" "step st e = Inr st'"
  then show ?thesis using SpawnAttempt process_grain_pool_inv by auto
next
  case (Render inp)
  assume "pool_inv st" "step st e = Inr st'"
  then show ?thesis using Render callback_pool_inv by auto
next
  case (AssignSequence u)
  assume "pool_inv st" "step st e = Inr st'"
  then show ?thesis using AssignSequence live_assign_sequence_pool[of st u st']
    by (cases "u = []") (simp_all add: pool_inv_def)
next
  case ResetCursor
  assume "pool_inv st" "step st e = Inr st'"
  then show ?thesis using ResetCursor by (auto simp: pool_inv_def live_reset_cursor_pool)
next
  case (SetupHopping u)
  assume "pool_inv st" "step st e = Inr st'"
  then show ?thesis using SetupHopping setupGrainHopping_pool[of st u st']
    by (simp add: pool_inv_def)
qed

lemma run_events_pool_inv:
  "pool_inv st \<Longrightarrow> run_events st es = Inr st' \<Longrightarrow> pool_inv st'"
proof (induction es arbitrary: st)
  case Nil
  then show ?case by simp
next
  case (Cons e es)
  then show ?case by (auto split: sum.splits dest: step_pool_inv)
qed

fun is_render :: "event \<Rightarrow> bool" where
  "is_render (Render inp) = True"
| "is_render e = False"

lemma step_at_limit:
  assumes "8 \<le> active_envelopes_grain st" "\<not> is_render e" "step st e = Inr st'"
  shows "object_array_grains st' = object_array_grains st \<and>
         active_envelopes_grain st' = active_envelopes_grain st"
proof (cases e)
  case (SpawnAttempt j s)
  then show ?thesis using assms by (auto simp: process_grain_at_limit)
next
  case (Render inp)
  then show ?thesis using assms by simp
next
  case (AssignSequence u)
  then show ?thesis using assms live_assign_sequence_pool[of st u st']
    by (cases "u = []") auto
next
  case ResetCursor
  then show ?thesis using assms by (auto simp: live_reset_cursor_pool)
next
  case (SetupHopping u)
  then show ?thesis using assms setupGrainHopping_pool[of st u st'] by simp
qed

lemma run_events_at_limit:
  "8 \<le> active_envelopes_grain st \<Longrightarrow> list_all (\<lambda>e. \<not> is_render e) es \<Longrightarrow>
   run_events st es = Inr st' \<Longrightarrow>
   object_array_grains st' = object_array_grains st \<and>
   active_envelopes_grain st' = active_envelopes_grain st"
proof (induction es arbitrary: st)
  case Nil
  then show ?case by simp
next
  case (Cons e es)
  from Cons.prems(3) obtain st1 where s1: "step st e = Inr st1" and r: "run_events st1 es = Inr st'"
    by (auto split: sum.splits)
  from Cons.prems(1,2) s1 have p: "object_array_grains st1 = object_array_grains st"
    "active_envelopes_grain st1 = active_envelopes_grain st"
    using step_at_limit[of st e st1] by simp_all
  with Cons.prems have "8 \<le> active_envelopes_grain st1" "list_all (\<lambda>e. \<not> is_render e) es"
    by simp_all
  from Cons.IH[OF this r] p show ?case by simp
qed

lemma count_active_replicate_idle: "count_active (replicate n idle_grain) = 0"
  by (simp add: count_active_def idle_grain_def)

lemma pool_inv_startup: "pool_inv (startup_engine total_fr chans outs)"
  by (simp add: pool_inv_def startup_engine_def count_active_replicate_idle)

lemma pool_inv_stream_start: "pool_inv (stream_start_engine total_fr chans outs)"
  by (simp add: pool_inv_def stream_start_engine_def startup_engine_def
      count_active_replicate_idle)

text \<open>
  Claim C3. From a state in which the active count equals the number of active slots and
  is at most 8 (the state at startup is one), every run of spawn attempts, render
  callbacks and sequence commands keeps the count at most 8 and equal to the number of
  active slots. With the count at 8 a spawn attempt returns the state unchanged (no slot,
  no count, no cursor changes), a spawn attempt that changes the state started below 8,
  and a run without a render callback, which is the only place where a grain completes
  and the count is decremented, leaves the pool and the count as they were.
\<close>

theorem active_grains_never_exceed_limit:
  "(pool_inv st \<and> run_events st es = Inr st' \<longrightarrow>
      active_envelopes_grain st' \<le> 8
      \<and> active_envelopes_grain st' = count_active (object_array_grains st'))
   \<and> (8 \<le> active_envelopes_grain st \<longrightarrow> function_process_grain st jitter scale = st)
   \<and> (function_process_grain st jitter scale \<noteq> st \<longrightarrow> active_envelopes_grain st < 8)
   \<and> (8 \<le> active_envelopes_grain st \<and> list_all (\<lambda>e. \<not> is_render e) es
        \<and> run_events st es = Inr st' \<longrightarrow>
        object_array_grains st' = object_array_grains st
        \<and> active_envelopes_grain st' = active_envelopes_grain st)"
proof -
  have a: "pool_inv st \<and> run_events st es = Inr st' \<longrightarrow>
      active_envelopes_grain st' \<le> 8
      \<and> active_envelopes_grain st' = count_active (object_array_grains st')"
    using run_events_pool_inv[of st es st'] by (auto simp: pool_inv_def)
  have b: "8 \<le> active_envelopes_grain st \<longrightarrow> function_process_grain st jitter scale = st"
    using process_grain_at_limit by blast
  have c: "function_process_grain st jitter scale \<noteq> st \<longrightarrow> active_envelopes_grain st < 8"
    by (cases "8 \<le> active_envelopes_grain st") (simp_all add: process_grain_at_limit)
  have d: "8 \<le> active_envelopes_grain st \<and> list_all (\<lambda>e. \<not> is_render e) es
        \<and> run_events st es = Inr st' \<longrightarrow>
        object_array_grains st' = object_array_grains st
        \<and> active_envelopes_grain st' = active_envelopes_grain st"
    using run_events_at_limit[of st es st'] by blast
  from a b c d show ?thesis by blast
qed

theorem active_grains_never_exceed_limit_witness:
  "pool_inv (startup_engine 48000 2 6)
   \<and> run_events (startup_engine 48000 2 6) [SpawnAttempt 0 1]
       = Inr (function_process_grain (startup_engine 48000 2 6) 0 1)
   \<and> active_envelopes_grain (function_process_grain (startup_engine 48000 2 6) 0 1) \<le> 8
   \<and> 8 \<le> active_envelopes_grain ((startup_engine 48000 2 6)\<lparr>active_envelopes_grain := 8\<rparr>)
   \<and> function_process_grain ((startup_engine 48000 2 6)\<lparr>active_envelopes_grain := 8\<rparr>) 0 1
       = (startup_engine 48000 2 6)\<lparr>active_envelopes_grain := 8\<rparr>
   \<and> list_all (\<lambda>e. \<not> is_render e) [SpawnAttempt 0 1, AssignSequence '''', ResetCursor]
   \<and> run_events ((startup_engine 48000 2 6)\<lparr>active_envelopes_grain := 8\<rparr>)
         [SpawnAttempt 0 1, AssignSequence '''', ResetCursor]
       = Inr ((startup_engine 48000 2 6)\<lparr>active_envelopes_grain := 8\<rparr>)"
proof -
  let ?s0 = "startup_engine 48000 2 6"
  let ?s8 = "?s0\<lparr>active_envelopes_grain := 8\<rparr>"
  have p: "pool_inv ?s0" by (rule pool_inv_startup)
  have r: "run_events ?s0 [SpawnAttempt 0 1] = Inr (function_process_grain ?s0 0 1)"
    by simp
  have l: "8 \<le> active_envelopes_grain ?s8" by simp
  have n: "list_all (\<lambda>e. \<not> is_render e) [SpawnAttempt 0 1, AssignSequence '''', ResetCursor]" by simp
  have f: "function_process_grain ?s8 0 1 = ?s8"
    using active_grains_never_exceed_limit[of ?s8 "[]" ?s8 0 1] l by blast
  have q: "live_reset_cursor ?s8 = ?s8"
    by (simp add: live_reset_cursor_def startup_engine_def)
  have r8: "run_events ?s8 [SpawnAttempt 0 1, AssignSequence '''', ResetCursor] = Inr ?s8"
    by (simp add: f q)
  have c: "active_envelopes_grain (function_process_grain ?s0 0 1) \<le> 8"
    using active_grains_never_exceed_limit
            [of ?s0 "[SpawnAttempt 0 1]" "function_process_grain ?s0 0 1" 0 1] p r
    by blast
  from p r c l f n r8 show ?thesis by blast
qed

section \<open>Start and length of a spawned grain\<close>

definition spawn_start :: "engine \<Rightarrow> int \<Rightarrow> nat" where
  "spawn_start st jitter =
     to_u32 (let start_raw = int (present_frame st) + jitter;
                 start_raw = (if start_raw < 0 then 0 else start_raw);
                 last_frame = int (sub32 (frames_total st) 1)
             in if last_frame < start_raw then last_frame else start_raw)"

definition spawn_frames :: "engine \<Rightarrow> int \<Rightarrow> rat \<Rightarrow> nat" where
  "spawn_frames st jitter scale =
     (let field_frames_grain = float_to_u32 (float_product_u32 (frames_object_grain st) scale);
          field_frames_grain = (if field_frames_grain < 64 then 64 else field_frames_grain)
      in if frames_total st < wrap32 (spawn_start st jitter + field_frames_grain)
         then sub32 (frames_total st) (spawn_start st jitter)
         else field_frames_grain)"

lemma process_grain_unfold:
  assumes "active_envelopes_grain st < 8" "first_inactive (object_array_grains st) = Some slot"
  shows "function_process_grain st jitter scale =
           (snd (initialize_grain st (object_array_grains st ! slot)
                   (spawn_start st jitter) (spawn_frames st jitter scale)))
             \<lparr>object_array_grains :=
                (object_array_grains st)
                  [slot := fst (initialize_grain st (object_array_grains st ! slot)
                                  (spawn_start st jitter) (spawn_frames st jitter scale))],
              active_envelopes_grain := wrap32 (active_envelopes_grain st + 1)\<rparr>"
  using assms
  unfolding function_process_grain_def spawn_start_def spawn_frames_def Let_def
  by (simp add: split_beta split del: if_split)

lemma spawn_frames_lt: "spawn_frames st jitter scale < 4294967296"
  by (simp add: spawn_frames_def Let_def float_to_u32_def sub32_def)

lemma initialize_grain_fields:
  "address_present_grain (fst (initialize_grain st g s n)) = 0"
  "frames_grain (fst (initialize_grain st g s n)) = n"
  "address_start_frame (fst (initialize_grain st g s n)) = s"
  by (simp_all add: initialize_grain_def Let_def)

lemma first_inactive_fresh: "first_inactive (replicate (Suc n) idle_grain) = Some 0"
  by (simp add: idle_grain_def)

lemma startup_first_inactive:
  "first_inactive (object_array_grains (startup_engine total_fr chans outs)) = Some 0"
proof -
  have "max_density_cloud_grain = Suc 127" by (simp add: max_density_cloud_grain_def)
  then have "replicate max_density_cloud_grain idle_grain = replicate (Suc 127) idle_grain"
    by (simp only:)
  then have "first_inactive (replicate max_density_cloud_grain idle_grain) = Some 0"
    by (simp only: first_inactive_fresh)
  then show ?thesis by (simp add: startup_engine_def)
qed

lemma spawn_start_clamp:
  assumes "1 \<le> frames_total st" "frames_total st < 4294967296"
  shows "spawn_start st jitter
         = nat (max 0 (min (int (present_frame st) + jitter) (int (frames_total st) - 1)))"
    and "spawn_start st jitter < frames_total st"
proof -
  have l: "sub32 (frames_total st) 1 = frames_total st - 1"
    using assms sub32_le[of 1 "frames_total st"] by simp
  define c where "c = max 0 (min (int (present_frame st) + jitter) (int (frames_total st) - 1))"
  have c: "0 \<le> c" "c \<le> int (frames_total st) - 1" using assms by (simp_all add: c_def)
  have "spawn_start st jitter = to_u32 c"
    unfolding spawn_start_def Let_def l c_def using assms
    by (simp add: of_nat_diff max_def min_def)
  also have "\<dots> = nat c" using c assms by (simp add: to_u32_def)
  finally show "spawn_start st jitter
         = nat (max 0 (min (int (present_frame st) + jitter) (int (frames_total st) - 1)))"
    by (simp add: c_def)
  then show "spawn_start st jitter < frames_total st" using c assms unfolding c_def by linarith
qed

lemma float_to_u32_floor: "0 \<le> x \<Longrightarrow> x < 4294967296 \<Longrightarrow> float_to_u32 x = nat \<lfloor>x\<rfloor>"
proof -
  assume a: "0 \<le> x" "x < 4294967296"
  then have "\<lfloor>x\<rfloor> < 4294967296" by (simp add: floor_less_iff)
  moreover have "0 \<le> \<lfloor>x\<rfloor>" using a by simp
  ultimately have "nat \<lfloor>x\<rfloor> < 4294967296" by linarith
  then show ?thesis by (simp add: float_to_u32_def)
qed

lemma spawn_frames_value:
  assumes t: "1 \<le> frames_total st" "frames_total st < 4294967296"
    and p: "product = float_product_u32 (frames_object_grain st) scale"
    and s: "0 \<le> product" "product < 4294967296"
    and nw: "spawn_start st jitter + max 64 (nat \<lfloor>product\<rfloor>) < 4294967296"
  shows "spawn_frames st jitter scale
         = min (max 64 (nat \<lfloor>product\<rfloor>)) (frames_total st - spawn_start st jitter)"
proof -
  have f: "float_to_u32 (float_product_u32 (frames_object_grain st) scale) = nat \<lfloor>product\<rfloor>"
    unfolding p[symmetric] using s by (rule float_to_u32_floor)
  have m: "(if nat \<lfloor>product\<rfloor> < 64 then 64 else nat \<lfloor>product\<rfloor>) = max 64 (nat \<lfloor>product\<rfloor>)"
    by (simp add: max_def)
  have w: "wrap32 (spawn_start st jitter + max 64 (nat \<lfloor>product\<rfloor>))
           = spawn_start st jitter + max 64 (nat \<lfloor>product\<rfloor>)"
    using nw by (simp add: wrap32_def)
  have lt: "spawn_start st jitter < frames_total st" using t by (rule spawn_start_clamp(2))
  then have sb: "sub32 (frames_total st) (spawn_start st jitter)
             = frames_total st - spawn_start st jitter"
    using t sub32_le[of "spawn_start st jitter" "frames_total st"] by simp
  show ?thesis
    unfolding spawn_frames_def Let_def f m w sb using lt by (simp add: min_def) linarith
qed

lemma startup_fields:
  "active_envelopes_grain (startup_engine total_fr chans outs) = 0"
  "frames_total (startup_engine total_fr chans outs) = total_fr"
  "present_frame (startup_engine total_fr chans outs) = 0"
  "frames_object_grain (startup_engine total_fr chans outs) = 2048"
  "g_jitter_range (startup_engine total_fr chans outs) = 1000"
  by (simp_all add: startup_engine_def)

lemma floor_rat_numeral_div:
  "\<lfloor>numeral a / numeral b :: rat\<rfloor> = numeral a div numeral b"
  "\<lfloor>- (numeral a / numeral b) :: rat\<rfloor> = - numeral a div numeral b"
  using floor_divide_of_int_eq[of "numeral a" "numeral b", where ?'a = rat]
    floor_divide_of_int_eq[of "- numeral a" "numeral b", where ?'a = rat]
  by simp_all

lemmas binary32_eval =
  floor_rat_numeral_div binary32_def round_half_even_def power_int_def Let_def eval_nat_numeral

lemma binary32_2048: "binary32 2048 = 2048"
  by (simp add: binary32_eval)

lemma float_product_2048_1: "float_product_u32 2048 1 = 2048"
  by (simp add: float_product_u32_def binary32_2048)

lemma quantum_exponent_lower: "k0 \<le> quantum_exponent x fuel k0"
proof (induction fuel arbitrary: k0)
  case 0
  then show ?case by simp
next
  case (Suc fuel)
  from Suc[of "k0 + 1"] show ?case by simp
qed

lemma quantum_exponent_upper:
  "x < 2 powi (K + 24) \<Longrightarrow> k0 \<le> K \<Longrightarrow> quantum_exponent x fuel k0 \<le> K"
proof (induction fuel arbitrary: k0)
  case 0
  then show ?case by simp
next
  case (Suc fuel)
  show ?case
  proof (cases "x < 2 powi (k0 + 24)")
    case True
    then show ?thesis using Suc.prems by simp
  next
    case False
    have "k0 < K"
    proof (rule ccontr)
      assume "\<not> k0 < K"
      then have "K + 24 \<le> k0 + 24" by simp
      then have "(2::rat) powi (K + 24) \<le> 2 powi (k0 + 24)"
        by (intro power_int_increasing) simp_all
      with Suc.prems(1) False show False by simp
    qed
    then have "k0 + 1 \<le> K" by simp
    from Suc.IH[OF Suc.prems(1) this] False show ?thesis by simp
  qed
qed

lemma round_half_even_of_int: "round_half_even (of_int m) = m"
  by (simp add: round_half_even_def)

lemma round_half_even_ge_floor: "\<lfloor>y\<rfloor> \<le> round_half_even y"
  by (simp add: round_half_even_def Let_def)

lemma round_half_even_le: "y \<le> of_int m \<Longrightarrow> round_half_even y \<le> m"
proof (cases "y = of_int m")
  case True
  then show ?thesis by (simp add: round_half_even_of_int)
next
  case False
  assume "y \<le> of_int m"
  with False have "y < of_int m" by simp
  then have "\<lfloor>y\<rfloor> < m" by (simp add: floor_less_iff)
  moreover have "round_half_even y \<le> \<lfloor>y\<rfloor> + 1" by (simp add: round_half_even_def Let_def)
  ultimately show ?thesis by linarith
qed

lemma powi_quotient_int:
  assumes "k \<le> K"
  shows "(2::rat) powi K / 2 powi k = of_int (2 ^ nat (K - k))"
proof -
  have "(2::rat) powi K / 2 powi k = 2 powi (K - k)"
    by (simp add: power_int_diff)
  also have "\<dots> = 2 ^ nat (K - k)" using assms by (simp add: power_int_def)
  finally show ?thesis by simp
qed

lemma binary32_nonneg: "0 \<le> x \<Longrightarrow> 0 \<le> binary32 x"
proof -
  assume x: "0 \<le> x"
  define k where "k = quantum_exponent \<bar>x\<bar> 253 (- 149)"
  have q: "(0::rat) < 2 powi k" by simp
  then have "0 \<le> x / 2 powi k" using x by simp
  then have "0 \<le> \<lfloor>x / 2 powi k\<rfloor>" by simp
  with round_half_even_ge_floor[of "x / 2 powi k"] have "0 \<le> round_half_even (x / 2 powi k)"
    by linarith
  then show ?thesis using q by (simp add: binary32_def k_def[symmetric])
qed

lemma binary32_upper:
  assumes x: "0 \<le> x" "x \<le> 256 * of_int N" and b: "256 * of_int N < (4294967296 :: rat)"
  shows "binary32 x \<le> 256 * of_int N"
proof -
  define k where "k = quantum_exponent \<bar>x\<bar> 253 (- 149)"
  have "\<bar>x\<bar> < 2 powi (8 + 24)" using x b by (simp add: power_int_def)
  then have k8: "k \<le> 8" unfolding k_def by (rule quantum_exponent_upper) simp
  have q: "(0::rat) < 2 powi k" by simp
  have "(256::rat) = 2 powi 8" by (simp add: power_int_def)
  then have "(256::rat) / 2 powi k = of_int (2 ^ nat (8 - k))"
    using powi_quotient_int[OF k8] by simp
  moreover have "(256::rat) * of_int N / 2 powi k = (256 / 2 powi k) * of_int N" by simp
  ultimately have e: "(256::rat) * of_int N / 2 powi k = of_int (2 ^ nat (8 - k) * N)"
    by (simp only: of_int_mult)
  have "x / 2 powi k \<le> 256 * of_int N / 2 powi k"
    using x(2) q by (simp add: divide_right_mono)
  then have "round_half_even (x / 2 powi k) \<le> 2 ^ nat (8 - k) * N"
    unfolding e by (rule round_half_even_le)
  then have "(of_int (round_half_even (x / 2 powi k)) :: rat) \<le> of_int (2 ^ nat (8 - k) * N)"
    by (simp only: of_int_le_iff)
  then have "(2::rat) powi k * of_int (round_half_even (x / 2 powi k))
             \<le> 2 powi k * (256 * of_int N / 2 powi k)"
    unfolding e using q by (simp only: mult_le_cancel_left_pos)
  also have "\<dots> = 256 * of_int N" using q by simp
  finally show ?thesis by (simp add: binary32_def k_def[symmetric])
qed

lemma binary32_of_nat:
  assumes "n < 16777216"
  shows "binary32 (of_nat n) = of_nat n"
proof -
  define k where "k = quantum_exponent \<bar>of_nat n\<bar> 253 (- 149)"
  have "\<bar>of_nat n :: rat\<bar> < 2 powi (0 + 24)" using assms by (simp add: power_int_def)
  then have k0: "k \<le> 0" unfolding k_def by (rule quantum_exponent_upper) simp
  have q: "(0::rat) < 2 powi k" by simp
  have "(1::rat) / 2 powi k = of_int (2 ^ nat (0 - k))"
    using powi_quotient_int[OF k0] by simp
  moreover have "(of_nat n :: rat) / 2 powi k = (1 / 2 powi k) * of_int (int n)" by simp
  ultimately have e: "(of_nat n :: rat) / 2 powi k = of_int (2 ^ nat (0 - k) * int n)"
    by (simp only: of_int_mult)
  have "(2::rat) powi k * of_int (round_half_even (of_nat n / 2 powi k))
        = 2 powi k * (of_nat n / 2 powi k)"
    unfolding e round_half_even_of_int ..
  also have "\<dots> = (of_nat n :: rat)" using q by simp
  finally show ?thesis unfolding k_def by (simp add: binary32_def Let_def)
qed

lemma float_product_bounds:
  assumes "n \<le> 8192" "0 \<le> s" "s \<le> 3 / 2"
  shows "0 \<le> float_product_u32 n s" and "float_product_u32 n s \<le> 12288"
proof -
  have e: "binary32 (of_nat n) = of_nat n" using assms(1) by (intro binary32_of_nat) simp
  have n: "(of_nat n :: rat) \<le> 8192" using assms(1) by simp
  have p0: "0 \<le> (of_nat n :: rat) * s" using assms(2) by simp
  have "(of_nat n :: rat) * s \<le> 8192 * (3 / 2)"
    using n assms(2,3) by (intro mult_mono) simp_all
  then have p1: "(of_nat n :: rat) * s \<le> 256 * of_int 48" by simp
  show "0 \<le> float_product_u32 n s"
    unfolding float_product_u32_def e using p0 by (rule binary32_nonneg)
  have "binary32 (of_nat n * s) \<le> 256 * of_int 48"
    using p0 p1 by (rule binary32_upper) simp
  then show "float_product_u32 n s \<le> 12288"
    unfolding float_product_u32_def e by simp
qed

lemma travel_factor_defaults:
  "binary32 (9 / 10) = 15099494 / 16777216"
  "binary32 (11 / 10) = 9227469 / 8388608"
  by (simp_all add: binary32_eval)

lemma startup_travel_factors:
  "g_travel_factor_min (startup_engine total_fr chans outs) = 15099494 / 16777216"
  "g_travel_factor_max (startup_engine total_fr chans outs) = 9227469 / 8388608"
  by (simp_all add: startup_engine_def travel_factor_defaults)

lemma float_product_7683: "float_product_u32 2048 (7683 / 8192) = 7683 / 4"
proof -
  have "binary32 (7683 / 4) = 7683 / 4" by (simp add: binary32_eval)
  then show ?thesis by (simp add: float_product_u32_def binary32_2048)
qed

lemma floor_7683_4: "nat \<lfloor>7683 / 4 :: rat\<rfloor> = 1920"
proof -
  have "\<lfloor>7683 / 4 :: rat\<rfloor> = 1920" by (rule floor_unique) simp_all
  then show ?thesis by simp
qed

lemma startup_spawn_frames:
  "frames_grain (object_array_grains
       (function_process_grain (startup_engine 48000 2 6) 0 (7683 / 8192)) ! 0) = 1920"
proof -
  let ?s0 = "startup_engine 48000 2 6"
  have a: "active_envelopes_grain ?s0 < 8" by (simp add: startup_fields)
  have t: "1 \<le> frames_total ?s0" "frames_total ?s0 < 4294967296" by (simp_all add: startup_fields)
  have s0: "spawn_start ?s0 0 = 0"
    using spawn_start_clamp(1)[OF t, of 0] by (simp add: startup_fields)
  have p: "(7683 / 4 :: rat) = float_product_u32 (frames_object_grain ?s0) (7683 / 8192)"
    by (simp add: startup_fields float_product_7683)
  have fl: "nat \<lfloor>7683 / 4 :: rat\<rfloor> = 1920" by (rule floor_7683_4)
  have "spawn_frames ?s0 0 (7683 / 8192)
        = min (max 64 (nat \<lfloor>7683 / 4 :: rat\<rfloor>)) (frames_total ?s0 - spawn_start ?s0 0)"
    using t p by (rule spawn_frames_value) (simp_all add: s0 fl)
  then have sf: "spawn_frames ?s0 0 (7683 / 8192) = 1920"
    by (simp add: fl s0 startup_fields)
  have len: "0 < length (object_array_grains ?s0)"
    by (simp add: startup_engine_def max_density_cloud_grain_def)
  show ?thesis
    using len
    by (simp add: process_grain_unfold[OF a startup_first_inactive] initialize_grain_pool
        initialize_grain_fields sf)
qed

text \<open>
  Claim C5, as stated, has the length rounded. At startup the grain length is 2048, the
  jitter range 1000 and the travel factors \<^verbatim>\<open>0.9f\<close> and \<^verbatim>\<open>1.1f\<close>. With the jitter 0 and the
  travel factor 7683/8192 (a \<^verbatim>\<open>float\<close> within the range; the product 1920.75 is exact in
  \<^verbatim>\<open>float\<close>) the spawned grain has 1920 frames; rounding the product gives 1921.
\<close>

theorem spawned_length_rounding_counterexample:
  "frames_object_grain (startup_engine 48000 2 6) = 2048
   \<and> - g_jitter_range (startup_engine 48000 2 6) \<le> 0
   \<and> 0 \<le> g_jitter_range (startup_engine 48000 2 6)
   \<and> g_travel_factor_min (startup_engine 48000 2 6) \<le> 7683 / 8192
   \<and> 7683 / 8192 \<le> g_travel_factor_max (startup_engine 48000 2 6)
   \<and> binary32 (7683 / 8192) = 7683 / 8192
   \<and> float_product_u32 2048 (7683 / 8192) = 2048 * (7683 / 8192)
   \<and> frames_grain (object_array_grains
         (function_process_grain (startup_engine 48000 2 6) 0 (7683 / 8192)) ! 0) = 1920
   \<and> max 64 (round (2048 * (7683 / 8192) :: rat)) = 1921"
proof -
  have r: "round (2048 * (7683 / 8192) :: rat) = 1921"
    unfolding round_def by (rule floor_unique) simp_all
  have b: "binary32 (7683 / 8192) = 7683 / 8192" by (simp add: binary32_eval)
  show ?thesis
    unfolding r using startup_spawn_frames b
    by (simp add: startup_fields startup_travel_factors float_product_7683)
qed

text \<open>
  Claim C5, amended. For a non-empty source, a spawn that finds a free slot below the
  concurrency limit, with the jitter \<open>j\<close> drawn from \<open>- g_jitter_range\<close> to
  \<open>g_jitter_range\<close> and the travel factor \<open>s\<close> drawn from \<open>g_travel_factor_min\<close> to
  \<open>g_travel_factor_max\<close>, gives the grain the start
  \<open>clamp (present_frame + j) 0 (total - 1)\<close> and the length \<open>max 64 \<lfloor>p\<rfloor>\<close>, where \<open>p\<close> is the
  \<^verbatim>\<open>float\<close> product of the grain length and \<open>s\<close>: its fraction is discarded, not rounded.
  The length is then cut to \<open>total - start\<close>, so \<open>start + length \<le> total\<close>. This is proved
  for a grain length of at most 8192 frames and travel factors between 0 and 1.5, the
  limits that the \<open>g\<close> and \<open>p\<close> commands enforce (the initial values are 2048, 0.9 and 1.1),
  and for a source of at most \<open>2\<^sup>3\<^sup>2 - 12288\<close> frames: then the product is at most 12288, the
  cast is in range and the 32-bit sum of start and length does not wrap around.
\<close>

theorem spawned_grain_start_and_length:
  assumes "active_envelopes_grain st < 8"
    and "first_inactive (object_array_grains st) = Some slot"
    and "1 \<le> frames_total st" and "frames_total st + 12288 \<le> 4294967296"
    and "frames_object_grain st \<le> 8192"
    and "0 \<le> g_travel_factor_min st" and "g_travel_factor_max st \<le> 3 / 2"
    and "- g_jitter_range st \<le> jitter" and "jitter \<le> g_jitter_range st"
    and "g_travel_factor_min st \<le> scale" and "scale \<le> g_travel_factor_max st"
    and "new_grain = object_array_grains (function_process_grain st jitter scale) ! slot"
  shows "address_start_frame new_grain
           = nat (max 0 (min (int (present_frame st) + jitter) (int (frames_total st) - 1)))
         \<and> frames_grain new_grain
             = min (max 64 (nat \<lfloor>float_product_u32 (frames_object_grain st) scale\<rfloor>))
                   (frames_total st - address_start_frame new_grain)
         \<and> address_start_frame new_grain + frames_grain new_grain \<le> frames_total st
         \<and> address_present_grain new_grain = 0
         \<and> status_callback_grain new_grain"
proof -
  define product where "product = float_product_u32 (frames_object_grain st) scale"
  have t: "1 \<le> frames_total st" "frames_total st < 4294967296" using assms(3,4) by simp_all
  have s: "0 \<le> scale" "scale \<le> 3 / 2" using assms(6,7,10,11) by simp_all
  have p: "0 \<le> product" "product \<le> 12288"
    unfolding product_def using assms(5) s by (rule float_product_bounds)+
  then have p32: "product < 4294967296" by simp
  from p(2) have "\<lfloor>product\<rfloor> \<le> \<lfloor>12288 :: rat\<rfloor>" by (rule floor_mono)
  also have "\<lfloor>12288 :: rat\<rfloor> = 12288" by simp
  finally have "nat \<lfloor>product\<rfloor> \<le> 12288" by linarith
  then have fl: "max 64 (nat \<lfloor>product\<rfloor>) \<le> 12288" by simp
  from first_inactive_Some[OF assms(2)] have sl: "slot < length (object_array_grains st)" by simp
  have g: "new_grain = fst (initialize_grain st (object_array_grains st ! slot)
                             (spawn_start st jitter) (spawn_frames st jitter scale))"
    using assms(12) sl
    by (simp add: process_grain_unfold[OF assms(1,2)] initialize_grain_pool)
  have st: "spawn_start st jitter
         = nat (max 0 (min (int (present_frame st) + jitter) (int (frames_total st) - 1)))"
    using t by (rule spawn_start_clamp(1))
  have lt: "spawn_start st jitter < frames_total st"
    using t by (rule spawn_start_clamp(2))
  have nw: "spawn_start st jitter + max 64 (nat \<lfloor>product\<rfloor>) < 4294967296"
    using lt fl assms(4) by linarith
  have fr: "spawn_frames st jitter scale
         = min (max 64 (nat \<lfloor>product\<rfloor>)) (frames_total st - spawn_start st jitter)"
    using t product_def p(1) p32 nw by (rule spawn_frames_value)
  have a: "address_start_frame new_grain = spawn_start st jitter"
    and b: "frames_grain new_grain = spawn_frames st jitter scale"
    and c: "address_present_grain new_grain = 0"
    and d: "status_callback_grain new_grain"
    by (simp_all add: g initialize_grain_fields initialize_grain_status)
  have e: "spawn_start st jitter
             + min (max 64 (nat \<lfloor>product\<rfloor>)) (frames_total st - spawn_start st jitter)
           \<le> frames_total st"
  proof -
    have "min (max 64 (nat \<lfloor>product\<rfloor>)) (frames_total st - spawn_start st jitter)
          \<le> frames_total st - spawn_start st jitter" by (rule min.cobounded2)
    with lt show ?thesis by linarith
  qed
  show ?thesis
    unfolding a b c fr product_def[symmetric] using d e by (simp only: st simp_thms)
qed

theorem spawned_grain_start_and_length_witness:
  "active_envelopes_grain (startup_engine 48000 2 6) < 8
   \<and> first_inactive (object_array_grains (startup_engine 48000 2 6)) = Some 0
   \<and> 1 \<le> frames_total (startup_engine 48000 2 6)
   \<and> frames_total (startup_engine 48000 2 6) + 12288 \<le> 4294967296
   \<and> frames_object_grain (startup_engine 48000 2 6) \<le> 8192
   \<and> 0 \<le> g_travel_factor_min (startup_engine 48000 2 6)
   \<and> g_travel_factor_max (startup_engine 48000 2 6) \<le> 3 / 2
   \<and> - g_jitter_range (startup_engine 48000 2 6) \<le> - 5
   \<and> - 5 \<le> g_jitter_range (startup_engine 48000 2 6)
   \<and> g_travel_factor_min (startup_engine 48000 2 6) \<le> 7683 / 8192
   \<and> 7683 / 8192 \<le> g_travel_factor_max (startup_engine 48000 2 6)
   \<and> address_start_frame (object_array_grains
         (function_process_grain (startup_engine 48000 2 6) (- 5) (7683 / 8192)) ! 0) = 0
   \<and> frames_grain (object_array_grains
         (function_process_grain (startup_engine 48000 2 6) (- 5) (7683 / 8192)) ! 0) = 1920"
proof -
  let ?s0 = "startup_engine 48000 2 6"
  let ?g = "object_array_grains (function_process_grain ?s0 (- 5) (7683 / 8192)) ! 0"
  have a: "active_envelopes_grain ?s0 < 8" by (simp add: startup_fields)
  have f: "first_inactive (object_array_grains ?s0) = Some 0" by (rule startup_first_inactive)
  have t: "1 \<le> frames_total ?s0" "frames_total ?s0 + 12288 \<le> 4294967296"
    by (simp_all add: startup_fields)
  have n: "frames_object_grain ?s0 \<le> 8192" by (simp add: startup_fields)
  have v: "0 \<le> g_travel_factor_min ?s0" "g_travel_factor_max ?s0 \<le> 3 / 2"
    by (simp_all add: startup_travel_factors)
  have j: "- g_jitter_range ?s0 \<le> - 5" "- 5 \<le> g_jitter_range ?s0"
    by (simp_all add: startup_fields)
  have s: "g_travel_factor_min ?s0 \<le> 7683 / 8192" "7683 / 8192 \<le> g_travel_factor_max ?s0"
    by (simp_all add: startup_travel_factors)
  from spawned_grain_start_and_length[OF a f t n v j s refl]
  have "address_start_frame ?g = 0 \<and> frames_grain ?g = 1920"
    by (simp add: startup_fields float_product_7683 floor_7683_4)
  with a f t n v j s show ?thesis by blast
qed

section \<open>The envelope index\<close>

definition grain_ok :: "struct_grain \<Rightarrow> bool" where
  "grain_ok g = (address_present_grain g \<le> frames_grain g \<and> frames_grain g < 4294967296)"

definition grains_ok :: "engine \<Rightarrow> bool" where
  "grains_ok st = list_all grain_ok (object_array_grains st)"

lemma env_index_lt: "env_index g f < kframes_envelope"
  by (simp add: env_index_def Let_def kframes_envelope_def)

lemma env_index_exact:
  assumes ok: "grain_ok g" and f: "f < frames_grain_process inp g"
  shows "frames_grain g \<noteq> 0"
    and "env_index g f
           = ((address_present_grain g + f) * (kframes_envelope - 1)) div frames_grain g"
proof -
  from ok have le: "address_present_grain g \<le> frames_grain g" and lt: "frames_grain g < 4294967296"
    by (simp_all add: grain_ok_def)
  have s: "sub32 (frames_grain g) (address_present_grain g)
           = frames_grain g - address_present_grain g"
    using le lt by (rule sub32_le)
  from f have "f < frames_grain g - address_present_grain g"
    by (simp add: frames_grain_process_def s)
  then have x: "address_present_grain g + f < frames_grain g" by linarith
  then show "frames_grain g \<noteq> 0" by simp
  from x lt have w: "wrap32 (address_present_grain g + f) = address_present_grain g + f"
    by (simp add: wrap32_def)
  from x have "(address_present_grain g + f) * 1023 < 1023 * frames_grain g" by simp
  then have q: "((address_present_grain g + f) * 1023) div frames_grain g < 1023"
    by (rule less_mult_imp_div_less)
  then have "wrap32 (((address_present_grain g + f) * 1023) div frames_grain g)
             = ((address_present_grain g + f) * 1023) div frames_grain g"
    by (simp add: wrap32_def)
  with q w show "env_index g f
           = ((address_present_grain g + f) * (kframes_envelope - 1)) div frames_grain g"
    by (simp add: env_index_def Let_def kframes_envelope_def)
qed

lemma process_grain_grains_ok:
  assumes "grains_ok st"
  shows "grains_ok (function_process_grain st jitter scale)"
proof (cases "8 \<le> active_envelopes_grain st")
  case True
  then show ?thesis using assms by (simp add: process_grain_at_limit)
next
  case False
  show ?thesis
  proof (cases "first_inactive (object_array_grains st)")
    case None
    then show ?thesis using assms False by (simp add: function_process_grain_def)
  next
    case (Some slot)
    from False have lt: "active_envelopes_grain st < 8" by simp
    let ?g = "fst (initialize_grain st (object_array_grains st ! slot)
                                  (spawn_start st jitter) (spawn_frames st jitter scale))"
    have "grain_ok ?g"
      by (simp add: grain_ok_def initialize_grain_fields spawn_frames_lt)
    moreover have "object_array_grains (function_process_grain st jitter scale)
          = (object_array_grains st)[slot := ?g]"
      by (simp add: process_grain_unfold[OF lt Some] initialize_grain_pool)
    ultimately show ?thesis
      using assms by (auto simp: grains_ok_def list_all_iff dest: subsetD[OF set_update_subset_insert])
  qed
qed

lemma grains_loop_ok:
  "list_all grain_ok gs \<Longrightarrow> grains_loop st inp gs active mix = (gs', active', mix') \<Longrightarrow>
   list_all grain_ok gs'"
proof (induction gs arbitrary: active mix gs' active' mix')
  case Nil
  then show ?case by simp
next
  case (Cons g gs)
  from Cons.prems(1) have okg: "grain_ok g" and okgs: "list_all grain_ok gs" by simp_all
  show ?case
  proof (cases "status_callback_grain g")
    case False
    obtain r a m where r: "grains_loop st inp gs active mix = (r, a, m)"
      by (cases "grains_loop st inp gs active mix") auto
    from Cons.IH[OF okgs r] Cons.prems(2) r False okg show ?thesis by auto
  next
    case True
    define mixed where "mixed = mix_grain st inp g mix"
    define advanced where "advanced = g\<lparr>address_present_grain :=
                          wrap32 (address_present_grain g + frames_grain_process inp g)\<rparr>"
    define finished where "finished = (frames_grain advanced \<le> address_present_grain advanced)"
    define a0 where "a0 = (if finished then sub32 active 1 else active)"
    obtain r a m where r: "grains_loop st inp gs a0 mixed = (r, a, m)"
      by (cases "grains_loop st inp gs a0 mixed") auto
    have res: "gs' = (if finished then advanced\<lparr>status_callback_grain := False\<rparr> else advanced) # r"
      using Cons.prems(2) True r
      by (simp_all add: Let_def mixed_def[symmetric] advanced_def[symmetric]
          finished_def[symmetric] a0_def[symmetric])
    from okg have le: "address_present_grain g \<le> frames_grain g"
      and lt: "frames_grain g < 4294967296" by (simp_all add: grain_ok_def)
    have "frames_grain_process inp g \<le> frames_grain g - address_present_grain g"
      by (simp add: frames_grain_process_def sub32_le[OF le lt])
    then have "address_present_grain g + frames_grain_process inp g \<le> frames_grain g"
      using le by linarith
    moreover have "wrap32 n \<le> n" for n by (simp add: wrap32_def)
    ultimately have "grain_ok advanced"
      using lt by (simp add: grain_ok_def advanced_def) (meson le_trans)
    then have "grain_ok (if finished then advanced\<lparr>status_callback_grain := False\<rparr> else advanced)"
      by (simp add: grain_ok_def)
    with Cons.IH[OF okgs r] res show ?thesis by simp
  qed
qed

lemma callback_grains_ok:
  assumes "grains_ok st"
  shows "grains_ok (fst (function_callback_audio st inp))"
proof -
  let ?st1 = "st\<lparr>count_present_frame := wrap32 (count_present_frame st + icount_frames inp)\<rparr>"
  let ?st2 = "trigger_grain st inp"
  let ?st3 = "advance_cursor ?st2 inp"
  let ?mix0 = "replicate (outChannels inp * icount_frames inp) []"
  let ?r = "process_grains ?st3 inp (present_frame ?st2) ?mix0"
  have 1: "grains_ok ?st1" using assms by (simp add: grains_ok_def)
  have "grains_ok (function_process_grain ?st1 (jitter_draw inp) (scale_draw inp))"
    using 1 by (rule process_grain_grains_ok)
  then have 2: "grains_ok ((function_process_grain ?st1 (jitter_draw inp) (scale_draw inp))
                  \<lparr>count_present_frame := 0\<rparr>)"
    by (simp add: grains_ok_def)
  have "grains_ok ?st2"
    unfolding trigger_grain_def Let_def using 1 2 by (simp split del: if_split) simp
  then have 3: "grains_ok ?st3" by (simp add: grains_ok_def advance_cursor_pool)
  have "grains_ok (fst ?r)"
  proof (cases "g_status_audio_playback ?st3 \<and> present_frame ?st2 < frames_total ?st3")
    case False
    then show ?thesis using 3 by (auto simp: process_grains_def)
  next
    case True
    obtain gs a m where r: "grains_loop ?st3 inp (object_array_grains ?st3)
                              (active_envelopes_grain ?st3) ?mix0 = (gs, a, m)"
      by (cases "grains_loop ?st3 inp (object_array_grains ?st3)
                              (active_envelopes_grain ?st3) ?mix0") auto
    from grains_loop_ok[OF _ r] 3 have "list_all grain_ok gs" by (simp add: grains_ok_def)
    then show ?thesis using True r by (simp add: process_grains_def grains_ok_def)
  qed
  then have "grains_ok (fst (channel_order_test (fst ?r) inp (snd ?r)))"
    by (simp add: grains_ok_def channel_order_test_pool)
  then show ?thesis
    by (simp add: function_callback_audio_def Let_def split_beta)
qed

lemma step_grains_ok: "grains_ok st \<Longrightarrow> step st e = Inr st' \<Longrightarrow> grains_ok st'"
proof (cases e)
  case (SpawnAttempt j s)
  assume "grains_ok st" "step st e = Inr st'"
  then show ?thesis using SpawnAttempt process_grain_grains_ok by auto
next
  case (Render inp)
  assume "grains_ok st" "step st e = Inr st'"
  then show ?thesis using Render callback_grains_ok by auto
next
  case (AssignSequence u)
  assume "grains_ok st" "step st e = Inr st'"
  then show ?thesis using AssignSequence live_assign_sequence_pool[of st u st']
    by (cases "u = []") (simp_all add: grains_ok_def)
next
  case ResetCursor
  assume "grains_ok st" "step st e = Inr st'"
  then show ?thesis using ResetCursor by (auto simp: grains_ok_def live_reset_cursor_pool)
next
  case (SetupHopping u)
  assume "grains_ok st" "step st e = Inr st'"
  then show ?thesis using SetupHopping setupGrainHopping_pool[of st u st']
    by (simp add: grains_ok_def)
qed

lemma run_events_grains_ok:
  "grains_ok st \<Longrightarrow> run_events st es = Inr st' \<Longrightarrow> grains_ok st'"
proof (induction es arbitrary: st)
  case Nil
  then show ?case by simp
next
  case (Cons e es)
  then show ?case by (auto split: sum.splits dest: step_grains_ok)
qed

lemma grains_ok_startup: "grains_ok (startup_engine total_fr chans outs)"
  by (simp add: grains_ok_def startup_engine_def list_all_iff grain_ok_def idle_grain_def)

lemma grains_ok_stream_start: "grains_ok (stream_start_engine total_fr chans outs)"
  by (simp add: grains_ok_def stream_start_engine_def startup_engine_def list_all_iff
      grain_ok_def idle_grain_def)

text \<open>
  Claim C10. The envelope index computed for a grain and a frame is below the table
  length 1024, whatever the grain length. For a grain whose playhead has not passed its
  length (every grain of every run from startup, shown last) and a frame of the current
  callback, the divisor is not zero and nothing wraps or is clamped: the index is
  \<open>(playhead + f) * 1023 div length\<close>.
\<close>

theorem envelope_index_in_bounds:
  "env_index g f < kframes_envelope
   \<and> kframes_envelope = 1024
   \<and> (grain_ok g \<and> f < frames_grain_process inp g \<longrightarrow>
        frames_grain g \<noteq> 0
        \<and> env_index g f
            = ((address_present_grain g + f) * (kframes_envelope - 1)) div frames_grain g)
   \<and> (grains_ok st \<and> run_events st es = Inr st' \<longrightarrow> grains_ok st')"
  using env_index_lt[of g f] env_index_exact[of g f inp] run_events_grains_ok[of st es st']
  by (auto simp: kframes_envelope_def)

definition short_grain :: struct_grain where
  "short_grain = \<lparr>address_start_frame = 47990, address_present_grain = 4, frames_grain = 10,
                   status_callback_grain = True, target_object = - 2\<rparr>"

theorem envelope_index_in_bounds_witness:
  "grain_ok short_grain
   \<and> 5 < frames_grain_process
           \<lparr>icount_frames = 512, outChannels = 6, jitter_draw = 0, scale_draw = 1,
            interval_product = 1024\<rparr> short_grain
   \<and> env_index short_grain 5 = 920
   \<and> grains_ok (startup_engine 48000 2 6)
   \<and> run_events (startup_engine 48000 2 6) [SpawnAttempt 0 1]
       = Inr (function_process_grain (startup_engine 48000 2 6) 0 1)
   \<and> grains_ok (function_process_grain (startup_engine 48000 2 6) 0 1)"
proof -
  let ?inp = "\<lparr>icount_frames = 512, outChannels = 6, jitter_draw = 0, scale_draw = 1,
            interval_product = 1024\<rparr>"
  let ?s0 = "startup_engine 48000 2 6"
  have ok: "grain_ok short_grain" by (simp add: grain_ok_def short_grain_def)
  have f: "5 < frames_grain_process ?inp short_grain"
    by (simp add: frames_grain_process_def short_grain_def sub32_def)
  have e: "env_index short_grain 5 = 920"
    using envelope_index_in_bounds[of short_grain 5 ?inp ?s0 "[]" ?s0] ok f
    by (simp add: short_grain_def kframes_envelope_def)
  have g0: "grains_ok ?s0" by (rule grains_ok_startup)
  have r: "run_events ?s0 [SpawnAttempt 0 1] = Inr (function_process_grain ?s0 0 1)"
    by simp
  have g1: "grains_ok (function_process_grain ?s0 0 1)"
    using envelope_index_in_bounds
            [of short_grain 5 ?inp ?s0 "[SpawnAttempt 0 1]" "function_process_grain ?s0 0 1"]
          g0 r by blast
  from ok f e g0 r g1 show ?thesis by blast
qed


section \<open>The playback cursor and the end of the source\<close>

lemma initialize_grain_globals:
  "present_frame (snd (initialize_grain st g s n)) = present_frame st"
  "frames_total (snd (initialize_grain st g s n)) = frames_total st"
  "g_status_audio_playback (snd (initialize_grain st g s n)) = g_status_audio_playback st"
  "g_run_channel_order_test (snd (initialize_grain st g s n)) = g_run_channel_order_test st"
  by (simp_all add: initialize_grain_def Let_def)

lemma process_grain_globals:
  "present_frame (function_process_grain st jitter scale) = present_frame st"
  "frames_total (function_process_grain st jitter scale) = frames_total st"
  "g_status_audio_playback (function_process_grain st jitter scale) = g_status_audio_playback st"
  "g_run_channel_order_test (function_process_grain st jitter scale) = g_run_channel_order_test st"
  unfolding function_process_grain_def Let_def
  by (simp_all add: split_beta initialize_grain_globals split: option.splits)

lemma trigger_grain_globals:
  "present_frame (trigger_grain st inp) = present_frame st"
  "frames_total (trigger_grain st inp) = frames_total st"
  "g_status_audio_playback (trigger_grain st inp) = g_status_audio_playback st"
  "g_run_channel_order_test (trigger_grain st inp) = g_run_channel_order_test st"
  by (simp_all add: trigger_grain_def Let_def process_grain_globals)

lemma advance_cursor_globals:
  "frames_total (advance_cursor st inp) = frames_total st"
  "g_status_audio_playback (advance_cursor st inp) = g_status_audio_playback st"
  "g_run_channel_order_test (advance_cursor st inp) = g_run_channel_order_test st"
  by (simp_all add: advance_cursor_def Let_def)

lemma process_grains_globals:
  "present_frame (fst (process_grains st inp start mix)) = present_frame st"
  "frames_total (fst (process_grains st inp start mix)) = frames_total st"
  "g_run_channel_order_test (fst (process_grains st inp start mix)) = g_run_channel_order_test st"
  by (simp_all add: process_grains_def split: prod.splits)

lemma channel_order_test_present:
  "present_frame (fst (channel_order_test st inp mix)) = present_frame st"
  by (simp add: channel_order_test_def split: prod.splits)

lemma channel_order_test_off:
  "\<not> g_run_channel_order_test st \<Longrightarrow> channel_order_test st inp mix = (st, mix)"
  by (simp add: channel_order_test_def)

lemma callback_present_frame:
  "present_frame (fst (function_callback_audio st inp))
   = present_frame (advance_cursor (trigger_grain st inp) inp)"
  by (simp add: function_callback_audio_def Let_def split_beta channel_order_test_present
      process_grains_globals)

lemma callback_cursor_value:
  assumes "\<not> g_run_channel_order_test st" "g_status_audio_playback st"
  shows "present_frame (fst (function_callback_audio st inp))
         = min (wrap32 (present_frame st + icount_frames inp)) (frames_total st)"
  using assms
  by (simp add: callback_present_frame advance_cursor_def Let_def trigger_grain_globals)

lemma process_grains_gate_closed:
  "frames_total st \<le> start \<Longrightarrow> process_grains st inp start mix = (st, mix)"
  by (simp add: process_grains_def)

lemma callback_at_end:
  assumes "frames_total st \<le> present_frame st"
  shows "object_array_grains (fst (function_callback_audio st inp))
           = object_array_grains (trigger_grain st inp)"
    and "active_envelopes_grain (fst (function_callback_audio st inp))
           = active_envelopes_grain (trigger_grain st inp)"
    and "\<not> g_run_channel_order_test st \<Longrightarrow>
         snd (function_callback_audio st inp)
           = replicate (outChannels inp * icount_frames inp) []"
proof -
  let ?st2 = "trigger_grain st inp"
  let ?st3 = "advance_cursor ?st2 inp"
  let ?mix0 = "replicate (outChannels inp * icount_frames inp) []"
  have "frames_total ?st3 \<le> present_frame ?st2"
    using assms by (simp add: advance_cursor_globals trigger_grain_globals)
  then have g: "process_grains ?st3 inp (present_frame ?st2) ?mix0 = (?st3, ?mix0)"
    by (rule process_grains_gate_closed)
  have c: "function_callback_audio st inp = channel_order_test ?st3 inp ?mix0"
    by (simp add: function_callback_audio_def Let_def g)
  show "object_array_grains (fst (function_callback_audio st inp)) = object_array_grains ?st2"
    by (simp add: c channel_order_test_pool advance_cursor_pool)
  show "active_envelopes_grain (fst (function_callback_audio st inp)) = active_envelopes_grain ?st2"
    by (simp add: c channel_order_test_pool advance_cursor_pool)
  assume "\<not> g_run_channel_order_test st"
  then have "\<not> g_run_channel_order_test ?st3"
    by (simp add: advance_cursor_globals trigger_grain_globals)
  then show "snd (function_callback_audio st inp) = ?mix0"
    by (simp add: c channel_order_test_off)
qed

lemma process_grain_keeps_active:
  assumes "i < length (object_array_grains st)" "status_callback_grain (object_array_grains st ! i)"
  shows "object_array_grains (function_process_grain st jitter scale) ! i
         = object_array_grains st ! i"
proof (cases "8 \<le> active_envelopes_grain st")
  case True
  then show ?thesis by (simp add: process_grain_at_limit)
next
  case False
  show ?thesis
  proof (cases "first_inactive (object_array_grains st)")
    case None
    then show ?thesis using False by (simp add: function_process_grain_def)
  next
    case (Some slot)
    from False have lt: "active_envelopes_grain st < 8" by simp
    from first_inactive_Some[OF Some] assms(2) have "slot \<noteq> i" by auto
    then show ?thesis
      by (simp add: process_grain_unfold[OF lt Some] initialize_grain_pool)
  qed
qed

lemma trigger_grain_keeps_active:
  assumes "i < length (object_array_grains st)" "status_callback_grain (object_array_grains st ! i)"
  shows "object_array_grains (trigger_grain st inp) ! i = object_array_grains st ! i"
proof -
  let ?st1 = "st\<lparr>count_present_frame := wrap32 (count_present_frame st + icount_frames inp)\<rparr>"
  have "object_array_grains (function_process_grain ?st1 (jitter_draw inp) (scale_draw inp)) ! i
        = object_array_grains ?st1 ! i"
    using assms by (intro process_grain_keeps_active) simp_all
  then show ?thesis by (simp add: trigger_grain_def Let_def)
qed

definition advance_grain :: "render_in \<Rightarrow> struct_grain \<Rightarrow> struct_grain" where
  "advance_grain inp g =
     (if \<not> status_callback_grain g then g
      else
        (let advanced = g\<lparr>address_present_grain :=
                           wrap32 (address_present_grain g + frames_grain_process inp g)\<rparr>
         in if frames_grain advanced \<le> address_present_grain advanced
            then advanced\<lparr>status_callback_grain := False\<rparr> else advanced))"

lemma grains_loop_pool:
  "fst (grains_loop st inp gs active mix) = map (advance_grain inp) gs"
  by (induction gs arbitrary: active mix) (simp_all add: split_beta Let_def advance_grain_def)

lemma callback_pool_open:
  assumes "g_status_audio_playback st" "present_frame st < frames_total st"
  shows "object_array_grains (fst (function_callback_audio st inp))
         = map (advance_grain inp) (object_array_grains (trigger_grain st inp))"
proof -
  let ?st2 = "trigger_grain st inp"
  let ?st3 = "advance_cursor ?st2 inp"
  let ?mix0 = "replicate (outChannels inp * icount_frames inp) []"
  have o: "g_status_audio_playback ?st3 \<and> present_frame ?st2 < frames_total ?st3"
    using assms by (simp add: advance_cursor_globals trigger_grain_globals)
  have "object_array_grains (fst (process_grains ?st3 inp (present_frame ?st2) ?mix0))
        = fst (grains_loop ?st3 inp (object_array_grains ?st3) (active_envelopes_grain ?st3) ?mix0)"
    using o by (simp add: process_grains_def split_beta)
  then show ?thesis
    by (simp add: function_callback_audio_def Let_def split_beta channel_order_test_pool
        grains_loop_pool advance_cursor_pool)
qed

lemma spawn_start_count [simp]:
  "spawn_start (st\<lparr>count_present_frame := c\<rparr>) jitter = spawn_start st jitter"
  by (simp add: spawn_start_def)

lemma spawn_frames_count [simp]:
  "spawn_frames (st\<lparr>count_present_frame := c\<rparr>) jitter scale = spawn_frames st jitter scale"
  by (simp add: spawn_frames_def Let_def cong: if_cong)

lemma trigger_grain_spawn_pool:
  assumes "float_to_u32 (interval_product inp) \<le> wrap32 (count_present_frame st + icount_frames inp)"
    and "active_envelopes_grain st < 8"
    and "first_inactive (object_array_grains st) = Some slot"
  shows "object_array_grains (trigger_grain st inp)
         = (object_array_grains st)
             [slot := fst (initialize_grain
                             (st\<lparr>count_present_frame :=
                                   wrap32 (count_present_frame st + icount_frames inp)\<rparr>)
                             (object_array_grains st ! slot)
                             (spawn_start st (jitter_draw inp))
                             (spawn_frames st (jitter_draw inp) (scale_draw inp)))]"
proof -
  let ?st1 = "st\<lparr>count_present_frame := wrap32 (count_present_frame st + icount_frames inp)\<rparr>"
  have a: "active_envelopes_grain ?st1 < 8" using assms(2) by simp
  have f: "first_inactive (object_array_grains ?st1) = Some slot" using assms(3) by simp
  show ?thesis
    using assms(1)
    by (simp add: trigger_grain_def Let_def process_grain_unfold[OF a f] initialize_grain_pool)
qed

lemma channel_order_test_globals:
  "frames_total (fst (channel_order_test st inp mix)) = frames_total st"
  "g_status_audio_playback (fst (channel_order_test st inp mix)) = g_status_audio_playback st"
  "count_present_frame (fst (channel_order_test st inp mix)) = count_present_frame st"
  by (simp_all add: channel_order_test_def split: prod.splits)

lemma process_grains_more_globals:
  "g_status_audio_playback (fst (process_grains st inp start mix)) = g_status_audio_playback st"
  "count_present_frame (fst (process_grains st inp start mix)) = count_present_frame st"
  by (simp_all add: process_grains_def split: prod.splits)

lemma advance_cursor_count:
  "count_present_frame (advance_cursor st inp) = count_present_frame st"
  by (simp add: advance_cursor_def Let_def)

lemma callback_globals:
  "frames_total (fst (function_callback_audio st inp)) = frames_total st"
  "g_status_audio_playback (fst (function_callback_audio st inp)) = g_status_audio_playback st"
  "count_present_frame (fst (function_callback_audio st inp))
     = count_present_frame (trigger_grain st inp)"
  by (simp_all add: function_callback_audio_def Let_def split_beta channel_order_test_globals
      process_grains_globals process_grains_more_globals advance_cursor_globals
      advance_cursor_count trigger_grain_globals)

lemma callback_test_off:
  "\<not> g_run_channel_order_test st \<Longrightarrow>
   \<not> g_run_channel_order_test (fst (function_callback_audio st inp))"
  by (simp add: function_callback_audio_def Let_def split_beta channel_order_test_off
      process_grains_globals advance_cursor_globals trigger_grain_globals)

lemma trigger_grain_count_reset:
  "float_to_u32 (interval_product inp) \<le> wrap32 (count_present_frame st + icount_frames inp)
   \<Longrightarrow> count_present_frame (trigger_grain st inp) = 0"
  by (simp add: trigger_grain_def Let_def)

lemma initialize_grain_params:
  "frames_object_grain (snd (initialize_grain st g s n)) = frames_object_grain st"
  "g_use_grain_hopping (snd (initialize_grain st g s n)) = g_use_grain_hopping st"
  "g_grain_sequence (snd (initialize_grain st g s n)) = g_grain_sequence st"
  by (simp_all add: initialize_grain_def Let_def)

lemma process_grain_params:
  "frames_object_grain (function_process_grain st jitter scale) = frames_object_grain st"
  "g_use_grain_hopping (function_process_grain st jitter scale) = g_use_grain_hopping st"
  "g_grain_sequence (function_process_grain st jitter scale) = g_grain_sequence st"
  unfolding function_process_grain_def Let_def
  by (simp_all add: split_beta initialize_grain_params split: option.splits)

lemma trigger_grain_params:
  "frames_object_grain (trigger_grain st inp) = frames_object_grain st"
  "g_use_grain_hopping (trigger_grain st inp) = g_use_grain_hopping st"
  "g_grain_sequence (trigger_grain st inp) = g_grain_sequence st"
  by (simp_all add: trigger_grain_def Let_def process_grain_params)

lemma callback_params:
  "frames_object_grain (fst (function_callback_audio st inp)) = frames_object_grain st"
  "g_use_grain_hopping (fst (function_callback_audio st inp)) = g_use_grain_hopping st"
  "g_grain_sequence (fst (function_callback_audio st inp)) = g_grain_sequence st"
  "g_sequence_position (fst (function_callback_audio st inp))
     = g_sequence_position (trigger_grain st inp)"
  by (simp_all add: function_callback_audio_def Let_def split_beta channel_order_test_def
      process_grains_def advance_cursor_def trigger_grain_params)

definition short_source_engine :: engine where
  "short_source_engine =
     (startup_engine 1000 2 6)
       \<lparr>g_use_grain_hopping := True,
        g_grain_sequence := [1],
        g_original_sequence_string := ''1'',
        g_sequence_position := 0,
        g_status_audio_playback := True\<rparr>"

definition render_A :: render_in where
  "render_A = \<lparr>icount_frames = 512, outChannels = 6, jitter_draw = 0, scale_draw = 1,
                interval_product = 512\<rparr>"

definition render_B :: render_in where
  "render_B = \<lparr>icount_frames = 512, outChannels = 6, jitter_draw = - 400, scale_draw = 1,
                interval_product = 512\<rparr>"

definition after_A :: engine where
  "after_A = fst (function_callback_audio short_source_engine render_A)"

definition after_B :: engine where
  "after_B = fst (function_callback_audio after_A render_B)"

lemma setup_short_source:
  "setupGrainHopping (startup_engine 1000 2 6) ''1'' = Inr short_source_engine"
proof -
  have "function_sequence_parse ''1'' = Inr [1]" by (simp add: parse_eval)
  then show ?thesis by (simp add: setupGrainHopping_def short_source_engine_def)
qed

lemma short_source_fields:
  "present_frame short_source_engine = 0"
  "frames_total short_source_engine = 1000"
  "g_status_audio_playback short_source_engine"
  "\<not> g_run_channel_order_test short_source_engine"
  "count_present_frame short_source_engine = 0"
  "active_envelopes_grain short_source_engine = 0"
  "frames_object_grain short_source_engine = 2048"
  "object_array_grains short_source_engine = idle_grain # replicate 127 idle_grain"
proof -
  have "max_density_cloud_grain = Suc 127" by (simp add: max_density_cloud_grain_def)
  then have "replicate max_density_cloud_grain idle_grain = idle_grain # replicate 127 idle_grain"
    by (metis replicate_Suc)
  then show "object_array_grains short_source_engine = idle_grain # replicate 127 idle_grain"
    by (simp add: short_source_engine_def startup_engine_def)
qed (simp_all add: short_source_engine_def startup_engine_def)

lemma floor_2048: "nat \<lfloor>2048 :: rat\<rfloor> = 2048"
  by simp

lemma interval_512: "float_to_u32 512 = 512"
  by (simp add: float_to_u32_def)

lemma advance_idle: "advance_grain inp idle_grain = idle_grain"
  by (simp add: advance_grain_def idle_grain_def)

lemma advance_fresh:
  assumes "status_callback_grain g" "address_present_grain g = 0"
    "icount_frames inp < frames_grain g" "frames_grain g < 4294967296"
  shows "advance_grain inp g = g\<lparr>address_present_grain := icount_frames inp\<rparr>"
proof -
  have "sub32 (frames_grain g) 0 = frames_grain g" using assms(4) sub32_le[of 0 "frames_grain g"] by simp
  then have p: "frames_grain_process inp g = icount_frames inp"
    using assms by (simp add: frames_grain_process_def)
  have w: "wrap32 (icount_frames inp) = icount_frames inp"
    using assms(3,4) by (simp add: wrap32_def)
  show ?thesis using assms by (simp add: advance_grain_def p w Let_def)
qed

lemma after_A_fields:
  "present_frame after_A = 512"
  "frames_total after_A = 1000"
  "g_status_audio_playback after_A"
  "\<not> g_run_channel_order_test after_A"
  "count_present_frame after_A = 0"
  "frames_object_grain after_A = 2048"
  by (simp_all add: after_A_def callback_cursor_value callback_globals callback_test_off
      callback_params
      short_source_fields trigger_grain_count_reset render_A_def interval_512 wrap32_def)

lemma after_A_pool:
  "\<exists>g. status_callback_grain g \<and>
       object_array_grains after_A = g # replicate 127 idle_grain"
proof -
  let ?s = short_source_engine
  let ?st1 = "?s\<lparr>count_present_frame := wrap32 (count_present_frame ?s + icount_frames render_A)\<rparr>"
  let ?g = "fst (initialize_grain ?st1 (object_array_grains ?s ! 0)
                   (spawn_start ?s (jitter_draw render_A))
                   (spawn_frames ?s (jitter_draw render_A) (scale_draw render_A)))"
  have t: "1 \<le> frames_total ?s" "frames_total ?s < 4294967296"
    by (simp_all add: short_source_fields)
  have ss0: "spawn_start ?s (0) = 0"
    using spawn_start_clamp(1)[OF t, of "0"] by (simp add: short_source_fields)
  then have ss: "spawn_start ?s (jitter_draw render_A) = 0"
    by (simp add: render_A_def)
  have p: "(2048 :: rat) = float_product_u32 (frames_object_grain ?s) (scale_draw render_A)"
    by (simp add: short_source_fields render_A_def float_product_2048_1)
  have "spawn_frames ?s (jitter_draw render_A) (scale_draw render_A)
        = min (max 64 (nat \<lfloor>2048 :: rat\<rfloor>))
            (frames_total ?s - spawn_start ?s (jitter_draw render_A))"
    using t p by (rule spawn_frames_value) (simp_all add: ss)
  then have sf: "spawn_frames ?s (jitter_draw render_A) (scale_draw render_A) = 1000"
    by (simp add: ss ss0 short_source_fields render_A_def)
  have c: "float_to_u32 (interval_product render_A)
           \<le> wrap32 (count_present_frame ?s + icount_frames render_A)"
    by (simp add: render_A_def interval_512 short_source_fields wrap32_def)
  have a: "active_envelopes_grain ?s < 8" by (simp add: short_source_fields)
  have f: "first_inactive (object_array_grains ?s) = Some 0"
    by (simp add: short_source_fields idle_grain_def)
  have pool: "object_array_grains (trigger_grain ?s render_A) = ?g # replicate 127 idle_grain"
    by (simp add: trigger_grain_spawn_pool[OF c a f] short_source_fields)
  have g: "status_callback_grain ?g" "address_present_grain ?g = 0" "frames_grain ?g = 1000"
    by (simp_all add: initialize_grain_status initialize_grain_fields sf)
  then have adv: "advance_grain render_A ?g = ?g\<lparr>address_present_grain := icount_frames render_A\<rparr>"
    by (intro advance_fresh) (simp_all add: render_A_def)
  have "object_array_grains after_A
        = map (advance_grain render_A) (object_array_grains (trigger_grain ?s render_A))"
    unfolding after_A_def
    by (rule callback_pool_open) (simp_all add: short_source_fields)
  then have "object_array_grains after_A
        = ?g\<lparr>address_present_grain := icount_frames render_A\<rparr> # replicate 127 idle_grain"
    by (simp add: pool adv advance_idle)
  moreover have "status_callback_grain (?g\<lparr>address_present_grain := icount_frames render_A\<rparr>)"
    using g(1) by simp
  ultimately show ?thesis by blast
qed

lemma after_A_active: "active_envelopes_grain after_A = 1"
proof -
  have "pool_inv short_source_engine"
    by (simp add: pool_inv_def short_source_fields count_active_def idle_grain_def)
  then have "pool_inv after_A" unfolding after_A_def by (rule callback_pool_inv)
  moreover from after_A_pool obtain g where "status_callback_grain g"
    "object_array_grains after_A = g # replicate 127 idle_grain" by blast
  ultimately show ?thesis by (simp add: pool_inv_def count_active_def idle_grain_def)
qed

lemma after_B_fields:
  "present_frame after_B = 1000"
  "frames_total after_B = 1000"
  "g_status_audio_playback after_B"
  "\<not> g_run_channel_order_test after_B"
  by (simp_all add: after_B_def callback_cursor_value callback_globals callback_test_off
      after_A_fields render_B_def wrap32_def)

lemma after_B_grain:
  "status_callback_grain (object_array_grains after_B ! 1)"
  "address_present_grain (object_array_grains after_B ! 1) = 512"
  "frames_grain (object_array_grains after_B ! 1) = 888"
  "1 < length (object_array_grains after_B)"
proof -
  let ?s = after_A
  let ?st1 = "?s\<lparr>count_present_frame := wrap32 (count_present_frame ?s + icount_frames render_B)\<rparr>"
  define gB where "gB = fst (initialize_grain ?st1 (object_array_grains ?s ! 1)
                   (spawn_start ?s (jitter_draw render_B))
                   (spawn_frames ?s (jitter_draw render_B) (scale_draw render_B)))"
  from after_A_pool obtain gA where gA: "status_callback_grain gA"
    "object_array_grains ?s = gA # replicate 127 idle_grain" by blast
  have r: "replicate 127 idle_grain = idle_grain # replicate 126 idle_grain"
  proof -
    have "(127::nat) = Suc 126" by simp
    then show ?thesis by (metis replicate_Suc)
  qed
  have t: "1 \<le> frames_total ?s" "frames_total ?s < 4294967296"
    by (simp_all add: after_A_fields)
  have ss0: "spawn_start ?s (- 400) = 112"
    using spawn_start_clamp(1)[OF t, of "- 400"] by (simp add: after_A_fields)
  then have ss: "spawn_start ?s (jitter_draw render_B) = 112"
    by (simp add: render_B_def)
  have p: "(2048 :: rat) = float_product_u32 (frames_object_grain ?s) (scale_draw render_B)"
    by (simp add: after_A_fields render_B_def float_product_2048_1)
  have "spawn_frames ?s (jitter_draw render_B) (scale_draw render_B)
        = min (max 64 (nat \<lfloor>2048 :: rat\<rfloor>))
            (frames_total ?s - spawn_start ?s (jitter_draw render_B))"
    using t p by (rule spawn_frames_value) (simp_all add: ss)
  then have sf: "spawn_frames ?s (jitter_draw render_B) (scale_draw render_B) = 888"
    by (simp add: ss ss0 after_A_fields render_B_def)
  have c: "float_to_u32 (interval_product render_B)
           \<le> wrap32 (count_present_frame ?s + icount_frames render_B)"
    by (simp add: render_B_def interval_512 after_A_fields wrap32_def)
  have a: "active_envelopes_grain ?s < 8" by (simp add: after_A_active)
  have "first_inactive (idle_grain # replicate 126 idle_grain) = Some 0"
    by (simp add: idle_grain_def)
  then have f: "first_inactive (object_array_grains ?s) = Some 1"
    using gA(1) by (simp add: gA(2) r)
  have pool: "object_array_grains (trigger_grain ?s render_B)
              = gA # gB # replicate 126 idle_grain"
    unfolding trigger_grain_spawn_pool[OF c a f] gB_def[symmetric] by (simp add: gA r)
  have g: "status_callback_grain gB" "address_present_grain gB = 0" "frames_grain gB = 888"
    by (simp_all add: gB_def initialize_grain_status initialize_grain_fields sf)
  then have adv: "advance_grain render_B gB = gB\<lparr>address_present_grain := icount_frames render_B\<rparr>"
    by (intro advance_fresh) (simp_all add: render_B_def)
  have "object_array_grains after_B
        = map (advance_grain render_B) (object_array_grains (trigger_grain ?s render_B))"
    unfolding after_B_def
    by (rule callback_pool_open) (simp_all add: after_A_fields)
  then have p: "object_array_grains after_B ! 1
                = gB\<lparr>address_present_grain := icount_frames render_B\<rparr>"
    and l: "1 < length (object_array_grains after_B)"
    by (simp_all add: pool adv)
  show "status_callback_grain (object_array_grains after_B ! 1)"
    "address_present_grain (object_array_grains after_B ! 1) = 512"
    "frames_grain (object_array_grains after_B ! 1) = 888"
    "1 < length (object_array_grains after_B)"
    using g l p by (simp_all add: render_B_def)
qed

text \<open>
  Claim C2, as stated, has grains that are active when the cursor has reached the end of
  the source play on and contribute to later callbacks. The grain loop is guarded by
  \<^verbatim>\<open>callback_start_fr < total_fr\<close>. In the run below, on a source of 1000 frames with
  callbacks of 512 frames, the second callback spawns a grain of 888 frames at frame 112
  (jitter -400), plays 512 of them and moves the cursor to the end. The third callback
  starts with the cursor at the end: the grain keeps its playhead at 512, stays active,
  and the mix is all zero.
\<close>

theorem grains_frozen_at_end_counterexample:
  "run_events (startup_engine 1000 2 6) [SetupHopping ''1'', Render render_A, Render render_B]
     = Inr after_B
   \<and> present_frame after_B = frames_total after_B
   \<and> g_status_audio_playback after_B
   \<and> \<not> g_run_channel_order_test after_B
   \<and> status_callback_grain (object_array_grains after_B ! 1)
   \<and> address_present_grain (object_array_grains after_B ! 1) = 512
   \<and> frames_grain (object_array_grains after_B ! 1) = 888
   \<and> object_array_grains (fst (function_callback_audio after_B render_A)) ! 1
       = object_array_grains after_B ! 1
   \<and> snd (function_callback_audio after_B render_A) = replicate (6 * 512) []
   \<and> present_frame (fst (function_callback_audio after_B render_A)) = 1000"
proof -
  have run: "run_events (startup_engine 1000 2 6)
               [SetupHopping ''1'', Render render_A, Render render_B] = Inr after_B"
    by (simp add: setup_short_source after_A_def after_B_def)
  have le: "frames_total after_B \<le> present_frame after_B" by (simp add: after_B_fields)
  have g: "object_array_grains (fst (function_callback_audio after_B render_A)) ! 1
           = object_array_grains after_B ! 1"
    using trigger_grain_keeps_active[OF after_B_grain(4) after_B_grain(1), of render_A]
    by (simp add: callback_at_end(1)[OF le])
  have m: "snd (function_callback_audio after_B render_A) = replicate (6 * 512) []"
    using callback_at_end(3)[OF le after_B_fields(4), of render_A]
    by (simp add: render_A_def)
  have p: "present_frame (fst (function_callback_audio after_B render_A)) = 1000"
    using callback_cursor_value[OF after_B_fields(4,3), of render_A]
    by (simp add: after_B_fields render_A_def wrap32_def)
  from run g m p after_B_grain(1-3) show ?thesis
    by (simp add: after_B_fields)
qed

text \<open>
  Claim C2, amended. While playback is enabled and the channel test is not running, the
  cursor after a callback is \<open>min (cursor + F) total\<close> (the sum in 32 bits): it advances by
  \<open>F\<close>, stops at the source length and never returns. A callback that starts with the
  cursor at or past the end skips the grain loop: after the spawn attempt of that
  callback the pool and the active count are not touched, every grain that was active
  keeps its playhead and stays active, and without the channel test the mix is all zero.
  A callback that starts with the cursor below the end, the one that reaches the end
  included, advances every grain of the pool (\<open>advance_grain\<close>).
\<close>

theorem cursor_clamped_and_grains_gated:
  "(\<not> g_run_channel_order_test st \<and> g_status_audio_playback st \<longrightarrow>
      present_frame (fst (function_callback_audio st inp))
        = min (wrap32 (present_frame st + icount_frames inp)) (frames_total st)
      \<and> present_frame (fst (function_callback_audio st inp)) \<le> frames_total st)
   \<and> (\<not> g_run_channel_order_test st \<and> g_status_audio_playback st
       \<and> present_frame st + icount_frames inp < 4294967296
       \<and> present_frame st \<le> frames_total st \<longrightarrow>
      present_frame (fst (function_callback_audio st inp))
        = min (present_frame st + icount_frames inp) (frames_total st)
      \<and> present_frame st \<le> present_frame (fst (function_callback_audio st inp)))
   \<and> (frames_total st \<le> present_frame st \<longrightarrow>
      object_array_grains (fst (function_callback_audio st inp))
        = object_array_grains (trigger_grain st inp)
      \<and> active_envelopes_grain (fst (function_callback_audio st inp))
        = active_envelopes_grain (trigger_grain st inp)
      \<and> (\<forall>i < length (object_array_grains st).
            status_callback_grain (object_array_grains st ! i) \<longrightarrow>
            object_array_grains (fst (function_callback_audio st inp)) ! i
              = object_array_grains st ! i)
      \<and> (\<not> g_run_channel_order_test st \<longrightarrow>
            snd (function_callback_audio st inp)
              = replicate (outChannels inp * icount_frames inp) []))
   \<and> (g_status_audio_playback st \<and> present_frame st < frames_total st \<longrightarrow>
      object_array_grains (fst (function_callback_audio st inp))
        = map (advance_grain inp) (object_array_grains (trigger_grain st inp)))"
proof -
  have a: "\<not> g_run_channel_order_test st \<and> g_status_audio_playback st \<longrightarrow>
      present_frame (fst (function_callback_audio st inp))
        = min (wrap32 (present_frame st + icount_frames inp)) (frames_total st)
      \<and> present_frame (fst (function_callback_audio st inp)) \<le> frames_total st"
    using callback_cursor_value[of st inp] by simp
  have b: "\<not> g_run_channel_order_test st \<and> g_status_audio_playback st
       \<and> present_frame st + icount_frames inp < 4294967296
       \<and> present_frame st \<le> frames_total st \<longrightarrow>
      present_frame (fst (function_callback_audio st inp))
        = min (present_frame st + icount_frames inp) (frames_total st)
      \<and> present_frame st \<le> present_frame (fst (function_callback_audio st inp))"
    using callback_cursor_value[of st inp] by (simp add: wrap32_def)
  have c: "frames_total st \<le> present_frame st \<longrightarrow>
      object_array_grains (fst (function_callback_audio st inp))
        = object_array_grains (trigger_grain st inp)
      \<and> active_envelopes_grain (fst (function_callback_audio st inp))
        = active_envelopes_grain (trigger_grain st inp)
      \<and> (\<forall>i < length (object_array_grains st).
            status_callback_grain (object_array_grains st ! i) \<longrightarrow>
            object_array_grains (fst (function_callback_audio st inp)) ! i
              = object_array_grains st ! i)
      \<and> (\<not> g_run_channel_order_test st \<longrightarrow>
            snd (function_callback_audio st inp)
              = replicate (outChannels inp * icount_frames inp) [])"
    using callback_at_end[of st inp] trigger_grain_keeps_active[of _ st inp] by simp
  have d: "g_status_audio_playback st \<and> present_frame st < frames_total st \<longrightarrow>
      object_array_grains (fst (function_callback_audio st inp))
        = map (advance_grain inp) (object_array_grains (trigger_grain st inp))"
    using callback_pool_open[of st inp] by blast
  from a b c d show ?thesis by blast
qed

theorem cursor_clamped_and_grains_gated_witness:
  "\<not> g_run_channel_order_test after_B
   \<and> g_status_audio_playback after_B
   \<and> present_frame after_B + icount_frames render_A < 4294967296
   \<and> present_frame after_B \<le> frames_total after_B
   \<and> frames_total after_B \<le> present_frame after_B
   \<and> present_frame (fst (function_callback_audio after_B render_A)) = 1000
   \<and> object_array_grains (fst (function_callback_audio after_B render_A)) ! 1
       = object_array_grains after_B ! 1
   \<and> snd (function_callback_audio after_B render_A)
       = replicate (outChannels render_A * icount_frames render_A) []
   \<and> g_status_audio_playback after_A \<and> present_frame after_A < frames_total after_A
   \<and> object_array_grains after_B
       = map (advance_grain render_B) (object_array_grains (trigger_grain after_A render_B))"
proof -
  note t = cursor_clamped_and_grains_gated[of after_B render_A]
  have o: "g_status_audio_playback after_A" "present_frame after_A < frames_total after_A"
    by (simp_all add: after_A_fields)
  have q: "object_array_grains after_B
       = map (advance_grain render_B) (object_array_grains (trigger_grain after_A render_B))"
    using cursor_clamped_and_grains_gated[of after_A render_B] o
    unfolding after_B_def by blast
  have h: "\<not> g_run_channel_order_test after_B" "g_status_audio_playback after_B"
    "present_frame after_B + icount_frames render_A < 4294967296"
    "present_frame after_B \<le> frames_total after_B" "frames_total after_B \<le> present_frame after_B"
    by (simp_all add: after_B_fields render_A_def)
  from t h have "present_frame (fst (function_callback_audio after_B render_A))
        = min (present_frame after_B + icount_frames render_A) (frames_total after_B)" by blast
  then have p: "present_frame (fst (function_callback_audio after_B render_A)) = 1000"
    by (simp add: after_B_fields render_A_def)
  from t h(5) after_B_grain(1,4)
  have g: "object_array_grains (fst (function_callback_audio after_B render_A)) ! 1
       = object_array_grains after_B ! 1" by blast
  from t h have m: "snd (function_callback_audio after_B render_A)
       = replicate (outChannels render_A * icount_frames render_A) []" by blast
  from h p g m o q show ?thesis by blast
qed

section \<open>The sequence cursor\<close>

text \<open>
  What holds of the cursor one statement at a time: a spawn that reads the sequence leaves
  the cursor below the sequence length, a render callback keeps a valid cursor valid, and
  so does the \<open>h\<close> handler when no callback runs between its two statements.
\<close>

definition cursor_in_bounds :: "engine \<Rightarrow> bool" where
  "cursor_in_bounds st =
     (g_grain_sequence st \<noteq> [] \<longrightarrow> g_sequence_position st < length (g_grain_sequence st))"

lemma initialize_grain_cursor:
  "cursor_in_bounds st \<Longrightarrow> cursor_in_bounds (snd (initialize_grain st g s n))"
  by (simp add: initialize_grain_def Let_def cursor_in_bounds_def)

lemma initialize_grain_hopping:
  assumes "g_use_grain_hopping st" "g_grain_sequence st \<noteq> []"
  shows "target_object (fst (initialize_grain st g s n))
           = g_grain_sequence st ! g_sequence_position st"
    and "g_sequence_position (snd (initialize_grain st g s n))
           = ((g_sequence_position st + 1) mod 18446744073709551616)
               mod length (g_grain_sequence st)"
  using assms by (simp_all add: initialize_grain_def Let_def)

lemma process_grain_cursor:
  assumes "cursor_in_bounds st"
  shows "cursor_in_bounds (function_process_grain st jitter scale)"
proof (cases "8 \<le> active_envelopes_grain st")
  case True
  then show ?thesis using assms by (simp add: process_grain_at_limit)
next
  case False
  show ?thesis
  proof (cases "first_inactive (object_array_grains st)")
    case None
    then show ?thesis using assms False by (simp add: function_process_grain_def)
  next
    case (Some slot)
    from False have lt: "active_envelopes_grain st < 8" by simp
    have "cursor_in_bounds (function_process_grain st jitter scale)
          = cursor_in_bounds (snd (initialize_grain st (object_array_grains st ! slot)
                                     (spawn_start st jitter) (spawn_frames st jitter scale)))"
      by (simp add: process_grain_unfold[OF lt Some] cursor_in_bounds_def)
    then show ?thesis using assms initialize_grain_cursor by simp
  qed
qed

lemma callback_cursor:
  assumes "cursor_in_bounds st"
  shows "cursor_in_bounds (fst (function_callback_audio st inp))"
proof -
  let ?st1 = "st\<lparr>count_present_frame := wrap32 (count_present_frame st + icount_frames inp)\<rparr>"
  have 1: "cursor_in_bounds ?st1" using assms by (simp add: cursor_in_bounds_def)
  have "cursor_in_bounds (function_process_grain ?st1 (jitter_draw inp) (scale_draw inp))"
    using 1 by (rule process_grain_cursor)
  then have "cursor_in_bounds (trigger_grain st inp)"
    using 1 by (simp add: trigger_grain_def Let_def cursor_in_bounds_def)
  then show ?thesis by (simp add: cursor_in_bounds_def callback_params trigger_grain_params)
qed

lemma live_replace_sequence_cursor:
  "live_replace_sequence st user_input = Inr st' \<Longrightarrow> user_input \<noteq> [] \<Longrightarrow>
   cursor_in_bounds st'"
  by (auto simp: live_replace_sequence_def live_assign_sequence_def live_reset_cursor_def
      cursor_in_bounds_def split: sum.splits)

lemma setupGrainHopping_cursor:
  "setupGrainHopping st user_sequence = Inr st' \<Longrightarrow> cursor_in_bounds st'"
  by (auto simp: setupGrainHopping_def cursor_in_bounds_def split: sum.splits)

text \<open>
  A callback between the two statements of the handler. The run: the sequence \<open>1 2\<close> is
  set up, one callback spawns a grain and moves the cursor to 1, and the \<open>h\<close> command
  assigns the one-step sequence \<open>3\<close>.
\<close>

definition two_step_engine :: engine where
  "two_step_engine =
     (startup_engine 48000 2 6)
       \<lparr>g_use_grain_hopping := True,
        g_grain_sequence := [1, 2],
        g_original_sequence_string := ''1 2'',
        g_sequence_position := 0,
        g_status_audio_playback := True\<rparr>"

definition after_first_spawn :: engine where
  "after_first_spawn = fst (function_callback_audio two_step_engine render_A)"

definition between_statements :: engine where
  "between_statements =
     after_first_spawn\<lparr>g_grain_sequence := [3], g_original_sequence_string := ''3''\<rparr>"

lemma setup_two_step:
  "setupGrainHopping (startup_engine 48000 2 6) ''1 2'' = Inr two_step_engine"
proof -
  have "function_sequence_parse ''1 2'' = Inr [1, 2]" by (simp add: parse_eval)
  then show ?thesis by (simp add: setupGrainHopping_def two_step_engine_def)
qed

lemma two_step_fields:
  "present_frame two_step_engine = 0"
  "frames_total two_step_engine = 48000"
  "g_status_audio_playback two_step_engine"
  "\<not> g_run_channel_order_test two_step_engine"
  "count_present_frame two_step_engine = 0"
  "active_envelopes_grain two_step_engine = 0"
  "frames_object_grain two_step_engine = 2048"
  "g_use_grain_hopping two_step_engine"
  "g_grain_sequence two_step_engine = [1, 2]"
  "g_sequence_position two_step_engine = 0"
  "object_array_grains two_step_engine = idle_grain # replicate 127 idle_grain"
proof -
  have "max_density_cloud_grain = Suc 127" by (simp add: max_density_cloud_grain_def)
  then have "replicate max_density_cloud_grain idle_grain = idle_grain # replicate 127 idle_grain"
    by (metis replicate_Suc)
  then show "object_array_grains two_step_engine = idle_grain # replicate 127 idle_grain"
    by (simp add: two_step_engine_def startup_engine_def)
qed (simp_all add: two_step_engine_def startup_engine_def)

lemma trigger_grain_spawn_hopping:
  assumes "float_to_u32 (interval_product inp) \<le> wrap32 (count_present_frame st + icount_frames inp)"
    and "active_envelopes_grain st < 8"
    and "first_inactive (object_array_grains st) = Some slot"
    and "g_use_grain_hopping st" and "g_grain_sequence st \<noteq> []"
  shows "g_sequence_position (trigger_grain st inp)
           = ((g_sequence_position st + 1) mod 18446744073709551616)
               mod length (g_grain_sequence st)"
    and "target_object (object_array_grains (trigger_grain st inp) ! slot)
           = g_grain_sequence st ! g_sequence_position st"
proof -
  let ?st1 = "st\<lparr>count_present_frame := wrap32 (count_present_frame st + icount_frames inp)\<rparr>"
  have a: "active_envelopes_grain ?st1 < 8" using assms(2) by simp
  have f: "first_inactive (object_array_grains ?st1) = Some slot" using assms(3) by simp
  have h: "g_use_grain_hopping ?st1" "g_grain_sequence ?st1 \<noteq> []" using assms(4,5) by simp_all
  from first_inactive_Some[OF assms(3)] have sl: "slot < length (object_array_grains st)" by simp
  show "g_sequence_position (trigger_grain st inp)
           = ((g_sequence_position st + 1) mod 18446744073709551616)
               mod length (g_grain_sequence st)"
    using assms(1) initialize_grain_hopping(2)[OF h]
    by (simp add: trigger_grain_def Let_def process_grain_unfold[OF a f])
  show "target_object (object_array_grains (trigger_grain st inp) ! slot)
           = g_grain_sequence st ! g_sequence_position st"
    using sl initialize_grain_hopping(1)[OF h]
    by (simp add: trigger_grain_spawn_pool[OF assms(1-3)])
qed

lemma advance_grain_target: "target_object (advance_grain inp g) = target_object g"
  by (simp add: advance_grain_def Let_def)

lemma spawn_frames_full:
  assumes "frames_object_grain st = 2048" "1 \<le> frames_total st" "frames_total st < 4294967296"
    and "spawn_start st jitter + 2048 \<le> frames_total st"
  shows "spawn_frames st jitter 1 = 2048"
proof -
  have p: "(2048 :: rat) = float_product_u32 (frames_object_grain st) 1"
    by (simp add: assms(1) float_product_2048_1)
  have "spawn_frames st jitter 1
        = min (max 64 (nat \<lfloor>2048 :: rat\<rfloor>)) (frames_total st - spawn_start st jitter)"
    using assms(2,3) p by (rule spawn_frames_value) (use assms(3,4) in simp_all)
  then show ?thesis using assms(4) by simp
qed

lemma after_first_fields:
  "present_frame after_first_spawn = 512"
  "frames_total after_first_spawn = 48000"
  "g_status_audio_playback after_first_spawn"
  "\<not> g_run_channel_order_test after_first_spawn"
  "count_present_frame after_first_spawn = 0"
  "frames_object_grain after_first_spawn = 2048"
  "g_use_grain_hopping after_first_spawn"
  "g_grain_sequence after_first_spawn = [1, 2]"
  by (simp_all add: after_first_spawn_def callback_cursor_value callback_globals
      callback_test_off callback_params two_step_fields trigger_grain_count_reset render_A_def
      interval_512 wrap32_def)

lemma two_step_spawns:
  "float_to_u32 (interval_product render_A)
     \<le> wrap32 (count_present_frame two_step_engine + icount_frames render_A)"
  "active_envelopes_grain two_step_engine < 8"
  "first_inactive (object_array_grains two_step_engine) = Some 0"
  by (simp_all add: render_A_def interval_512 two_step_fields wrap32_def idle_grain_def)

lemma after_first_position: "g_sequence_position after_first_spawn = 1"
  unfolding after_first_spawn_def callback_params
  by (simp add: trigger_grain_spawn_hopping(1)[OF two_step_spawns] two_step_fields)

lemma after_first_pool:
  "\<exists>g. status_callback_grain g \<and>
       object_array_grains after_first_spawn = g # replicate 127 idle_grain"
proof -
  let ?s = two_step_engine
  let ?st1 = "?s\<lparr>count_present_frame := wrap32 (count_present_frame ?s + icount_frames render_A)\<rparr>"
  let ?g = "fst (initialize_grain ?st1 (object_array_grains ?s ! 0)
                   (spawn_start ?s (jitter_draw render_A))
                   (spawn_frames ?s (jitter_draw render_A) (scale_draw render_A)))"
  have t: "1 \<le> frames_total ?s" "frames_total ?s < 4294967296"
    by (simp_all add: two_step_fields)
  have ss: "spawn_start ?s 0 = 0"
    using spawn_start_clamp(1)[OF t, of "0"] by (simp add: two_step_fields)
  have "spawn_frames ?s 0 1 = 2048"
    using two_step_fields(7) t by (rule spawn_frames_full) (simp add: ss two_step_fields)
  then have sf: "spawn_frames ?s (jitter_draw render_A) (scale_draw render_A) = 2048"
    by (simp add: render_A_def)
  have pool: "object_array_grains (trigger_grain ?s render_A) = ?g # replicate 127 idle_grain"
    by (simp add: trigger_grain_spawn_pool[OF two_step_spawns] two_step_fields)
  have g: "status_callback_grain ?g" "address_present_grain ?g = 0" "frames_grain ?g = 2048"
    by (simp_all add: initialize_grain_status initialize_grain_fields sf)
  then have adv: "advance_grain render_A ?g = ?g\<lparr>address_present_grain := icount_frames render_A\<rparr>"
    by (intro advance_fresh) (simp_all add: render_A_def)
  have "object_array_grains after_first_spawn
        = map (advance_grain render_A) (object_array_grains (trigger_grain ?s render_A))"
    unfolding after_first_spawn_def
    by (rule callback_pool_open) (simp_all add: two_step_fields)
  then have "object_array_grains after_first_spawn
        = ?g\<lparr>address_present_grain := icount_frames render_A\<rparr> # replicate 127 idle_grain"
    by (simp add: pool adv advance_idle)
  moreover have "status_callback_grain (?g\<lparr>address_present_grain := icount_frames render_A\<rparr>)"
    using g(1) by simp
  ultimately show ?thesis by blast
qed

lemma after_first_active: "active_envelopes_grain after_first_spawn = 1"
proof -
  have "pool_inv two_step_engine"
    by (simp add: pool_inv_def two_step_fields count_active_def idle_grain_def)
  then have "pool_inv after_first_spawn" unfolding after_first_spawn_def by (rule callback_pool_inv)
  moreover from after_first_pool obtain g where "status_callback_grain g"
    "object_array_grains after_first_spawn = g # replicate 127 idle_grain" by blast
  ultimately show ?thesis by (simp add: pool_inv_def count_active_def idle_grain_def)
qed

lemma between_fields:
  "present_frame between_statements = 512"
  "frames_total between_statements = 48000"
  "g_status_audio_playback between_statements"
  "\<not> g_run_channel_order_test between_statements"
  "count_present_frame between_statements = 0"
  "frames_object_grain between_statements = 2048"
  "g_use_grain_hopping between_statements"
  "g_grain_sequence between_statements = [3]"
  "g_sequence_position between_statements = 1"
  "active_envelopes_grain between_statements = 1"
  "object_array_grains between_statements = object_array_grains after_first_spawn"
  by (simp_all add: between_statements_def after_first_fields after_first_position
      after_first_active)

lemma between_first_inactive:
  "first_inactive (object_array_grains between_statements) = Some 1"
  "\<not> status_callback_grain (object_array_grains between_statements ! 1)"
proof -
  from after_first_pool obtain g where g: "status_callback_grain g"
    "object_array_grains after_first_spawn = g # replicate 127 idle_grain" by blast
  have r: "replicate 127 idle_grain = idle_grain # replicate 126 idle_grain"
  proof -
    have "(127::nat) = Suc 126" by simp
    then show ?thesis by (metis replicate_Suc)
  qed
  have "first_inactive (idle_grain # replicate 126 idle_grain) = Some 0"
    by (simp add: idle_grain_def)
  then show "first_inactive (object_array_grains between_statements) = Some 1"
    using g(1) by (simp add: between_fields g(2) r)
  show "\<not> status_callback_grain (object_array_grains between_statements ! 1)"
    by (simp add: between_fields g(2) r idle_grain_def)
qed

lemma between_spawns:
  "float_to_u32 (interval_product render_A)
     \<le> wrap32 (count_present_frame between_statements + icount_frames render_A)"
  "active_envelopes_grain between_statements < 8"
  by (simp_all add: render_A_def interval_512 between_fields wrap32_def)

lemma between_spawned_grain:
  "status_callback_grain
     (object_array_grains (fst (function_callback_audio between_statements render_A)) ! 1)"
  "target_object
     (object_array_grains (fst (function_callback_audio between_statements render_A)) ! 1)
   = g_grain_sequence between_statements ! g_sequence_position between_statements"
proof -
  let ?s = between_statements
  let ?st1 = "?s\<lparr>count_present_frame := wrap32 (count_present_frame ?s + icount_frames render_A)\<rparr>"
  define gB where "gB = fst (initialize_grain ?st1 (object_array_grains ?s ! 1)
                   (spawn_start ?s (jitter_draw render_A))
                   (spawn_frames ?s (jitter_draw render_A) (scale_draw render_A)))"
  note sp = between_spawns between_first_inactive(1)
  from first_inactive_Some[OF between_first_inactive(1)]
  have sl: "1 < length (object_array_grains ?s)" by simp
  have t: "1 \<le> frames_total ?s" "frames_total ?s < 4294967296"
    by (simp_all add: between_fields)
  have ss: "spawn_start ?s 0 = 512"
    using spawn_start_clamp(1)[OF t, of "0"] by (simp add: between_fields)
  have "spawn_frames ?s 0 1 = 2048"
    using between_fields(6) t by (rule spawn_frames_full) (simp add: ss between_fields)
  then have sf: "spawn_frames ?s (jitter_draw render_A) (scale_draw render_A) = 2048"
    by (simp add: render_A_def)
  have pool: "object_array_grains (trigger_grain ?s render_A) ! 1 = gB"
    unfolding trigger_grain_spawn_pool[OF sp] gB_def[symmetric] using sl by simp
  have len: "1 < length (object_array_grains (trigger_grain ?s render_A))"
    unfolding trigger_grain_spawn_pool[OF sp] using sl by simp
  have g: "status_callback_grain gB" "address_present_grain gB = 0" "frames_grain gB = 2048"
    by (simp_all add: gB_def initialize_grain_status initialize_grain_fields sf)
  then have adv: "advance_grain render_A gB = gB\<lparr>address_present_grain := icount_frames render_A\<rparr>"
    by (intro advance_fresh) (simp_all add: render_A_def)
  have "object_array_grains (fst (function_callback_audio ?s render_A))
        = map (advance_grain render_A) (object_array_grains (trigger_grain ?s render_A))"
    by (rule callback_pool_open) (simp_all add: between_fields)
  moreover have "map (advance_grain render_A) (object_array_grains (trigger_grain ?s render_A)) ! 1
        = advance_grain render_A (object_array_grains (trigger_grain ?s render_A) ! 1)"
    using len by (rule nth_map)
  ultimately have p: "object_array_grains (fst (function_callback_audio ?s render_A)) ! 1
                = gB\<lparr>address_present_grain := icount_frames render_A\<rparr>"
    by (simp only: pool adv)
  show "status_callback_grain
     (object_array_grains (fst (function_callback_audio ?s render_A)) ! 1)"
    unfolding p using g(1) by simp
  have "target_object gB = g_grain_sequence ?s ! g_sequence_position ?s"
    using trigger_grain_spawn_hopping(2)[OF sp] unfolding pool by (simp add: between_fields)
  then show "target_object
     (object_array_grains (fst (function_callback_audio ?s render_A)) ! 1)
   = g_grain_sequence ?s ! g_sequence_position ?s"
    unfolding p by simp
qed

lemma assign_3:
  "live_assign_sequence after_first_spawn ''3'' = Inr between_statements"
proof -
  have "function_sequence_parse ''3'' = Inr [3]" by (simp add: parse_eval)
  then show ?thesis by (simp add: live_assign_sequence_def between_statements_def)
qed

text \<open>
  Claim C9 fails on the code. The \<open>h\<close> handler assigns the new sequence and resets the
  cursor in two statements, on the control thread, while the render callback keeps
  running. In the run below the sequence \<open>1 2\<close> is set up, a callback spawns a grain and
  moves the cursor to 1, and the handler assigns the one-step sequence \<open>3\<close>. In the state
  between the two statements hopping is on, the sequence is not empty and the cursor (1)
  is not below its length (1). A callback that runs there spawns a grain into slot 1, and
  the target of that grain is the element at index 1 of the one-element sequence: the
  read of \<^verbatim>\<open>initialize_grain\<close> is out of bounds. Had the reset run first, the cursor would
  be 0.
\<close>

theorem sequence_read_out_of_bounds:
  "run_events (startup_engine 48000 2 6)
      [SetupHopping ''1 2'', Render render_A, AssignSequence ''3'']
     = Inr between_statements
   \<and> g_use_grain_hopping between_statements
   \<and> g_grain_sequence between_statements = [3]
   \<and> g_sequence_position between_statements = 1
   \<and> length (g_grain_sequence between_statements) \<le> g_sequence_position between_statements
   \<and> \<not> status_callback_grain (object_array_grains between_statements ! 1)
   \<and> status_callback_grain
        (object_array_grains (fst (function_callback_audio between_statements render_A)) ! 1)
   \<and> target_object
        (object_array_grains (fst (function_callback_audio between_statements render_A)) ! 1)
       = g_grain_sequence between_statements ! g_sequence_position between_statements
   \<and> run_events (startup_engine 48000 2 6)
        [SetupHopping ''1 2'', Render render_A, AssignSequence ''3'', ResetCursor]
       = Inr (between_statements\<lparr>g_sequence_position := 0\<rparr>)"
proof -
  have r1: "run_events (startup_engine 48000 2 6)
      [SetupHopping ''1 2'', Render render_A, AssignSequence ''3'']
     = Inr between_statements"
    by (simp add: setup_two_step after_first_spawn_def[symmetric] assign_3)
  have r2: "run_events (startup_engine 48000 2 6)
        [SetupHopping ''1 2'', Render render_A, AssignSequence ''3'', ResetCursor]
       = Inr (between_statements\<lparr>g_sequence_position := 0\<rparr>)"
    by (simp add: setup_two_step after_first_spawn_def[symmetric] assign_3
        live_reset_cursor_def between_fields)
  show ?thesis
    using r1 r2 between_first_inactive(2) between_spawned_grain
    by (simp add: between_fields)
qed

section \<open>Channel resolution in the mixer\<close>




























end
